theory Spec2Isabelle
  imports Complex_Main
begin

section \<open>Shared constants (\<open>DRAWING_CONSTANTS\<close>)\<close>

text \<open>
  The object \<open>DRAWING_CONSTANTS\<close> of the drawing module. Only the entries that the
  modelled functions read are transcribed.
\<close>

definition POINTS_PER_STROKE :: nat where
  "POINTS_PER_STROKE = 1024"

definition MAX_STROKES :: nat where
  "MAX_STROKES = 64"

definition MAX_ANIMATIONS :: nat where
  "MAX_ANIMATIONS = 64"

definition WORKGROUP_SIZE :: nat where
  "WORKGROUP_SIZE = 64"

definition CANVAS_WIDTH :: real where
  "CANVAS_WIDTH = 1280"

definition CANVAS_HEIGHT :: real where
  "CANVAS_HEIGHT = 720"

section \<open>The wavefront function\<close>

text \<open>
  Shader arithmetic is modelled over the reals: \<open>f32\<close> rounding is not part of the
  model. \<open>clamp\<close> is the shader builtin, \<open>min (max x lo) hi\<close>.
\<close>

definition clamp :: "real \<Rightarrow> real \<Rightarrow> real \<Rightarrow> real" where
  "clamp v lo hi = min (max v lo) hi"

text \<open>
  \<^verbatim>\<open>fn phaser(pct: f32, phase: f32, e: f32) -> f32 {
    return clamp((phase - 1.0 + pct * (1.0 + e)) / e, 0.0, 1.0); }\<close>
\<close>

definition phaser :: "real \<Rightarrow> real \<Rightarrow> real \<Rightarrow> real" where
  "phaser pct phase e = clamp ((phase - 1 + pct * (1 + e)) / e) 0 1"

section \<open>The stroke-animation kernel (\<open>strokeAnimation.wgsl\<close>)\<close>

text \<open>
  The two records of the shader, field for field. Every field is an \<open>f32\<close>.
\<close>

record LaunchConfig =
  strokeAIndex :: real
  strokeBIndex :: real
  interpolationT :: real
  totalDuration :: real
  elapsedTime :: real
  startPointX :: real
  startPointY :: real
  scale :: real
  active :: real
  phase :: real
  reserved1 :: real
  reserved2 :: real

record GlobalParams =
  time :: real
  canvasWidth :: real
  canvasHeight :: real
  maxAnimations :: real
  deltaTime :: real
  padding1 :: real
  padding2 :: real
  padding3 :: real

type_synonym vec2 = "real \<times> real"
type_synonym vec4 = "real \<times> real \<times> real \<times> real"

text \<open>
  The two storage buffers bound \<open>read_write\<close>: \<open>instanceMatrices\<close> (binding 0) and
  \<open>launchConfigs\<close> (binding 1). A kernel invocation takes the buffers and returns them.
  A write past the end of a buffer is dropped, as \<open>list_update\<close> does.
\<close>

record buffers =
  instanceMatrices :: "vec4 list"
  launchConfigs :: "LaunchConfig list"

text \<open>
  The conversion \<open>u32(f)\<close> of an \<open>f32\<close>: truncation towards zero, clamped to the range
  of \<open>u32\<close>. \<open>u32\<close> products and sums wrap modulo \<open>2^32\<close>.
\<close>

definition u32 :: "real \<Rightarrow> nat" where
  "u32 v = min (nat \<lfloor>v\<rfloor>) (2 ^ 32 - 1)"

definition mix :: "vec2 \<Rightarrow> vec2 \<Rightarrow> real \<Rightarrow> vec2" where
  "mix a b w = (fst a * (1 - w) + fst b * w, snd a * (1 - w) + snd b * w)"

text \<open>
  \<open>sampleStroke\<close> reads the stroke texture through the bound sampler at level 0 and
  keeps the \<open>rg\<close> channels. The sampled texture is the parameter \<open>tex\<close>, a function
  from texture coordinates to the two channels.
\<close>

definition sampleStroke :: "(vec2 \<Rightarrow> vec2) \<Rightarrow> nat \<Rightarrow> real \<Rightarrow> vec2" where
  "sampleStroke tex strokeIndex ph = tex (ph, real strokeIndex / 64)"

definition transformToCanvas :: "vec2 \<Rightarrow> LaunchConfig \<Rightarrow> vec2" where
  "transformToCanvas strokePoint config =
     (startPointX config + fst strokePoint * scale config,
      startPointY config + snd strokePoint * scale config)"

definition canvasToNDC :: "vec2 \<Rightarrow> real \<Rightarrow> real \<Rightarrow> vec2" where
  "canvasToNDC canvasPos cw ch =
     (let aspectRatio = cw / ch;
          ndcX = ((fst canvasPos / cw) * 2 - 1) * aspectRatio;
          ndcY = - ((snd canvasPos / ch) * 2 - 1)
      in (ndcX, ndcY))"

definition buildTransformMatrix :: "nat \<Rightarrow> vec2 \<Rightarrow> real \<Rightarrow> vec4 list \<Rightarrow> vec4 list" where
  "buildTransformMatrix instanceIndex position sc m =
     (let base = (instanceIndex * 4) mod 2 ^ 32
      in m[(base + 0) mod 2 ^ 32 := (sc, 0, 0, 0),
           (base + 1) mod 2 ^ 32 := (0, sc, 0, 0),
           (base + 2) mod 2 ^ 32 := (0, 0, 1, 0),
           (base + 3) mod 2 ^ 32 := (fst position, snd position, 0, 1)])"

definition setInactiveInstance :: "nat \<Rightarrow> vec4 list \<Rightarrow> vec4 list" where
  "setInactiveInstance instanceIndex m =
     (let base = (instanceIndex * 4) mod 2 ^ 32
      in m[(base + 3) mod 2 ^ 32 := (- 10000, 0, 0, 1)])"

text \<open>
  The first draft of the kernel, section 5.1 of the implementation plan: one invocation
  per animation, which advances the record on the GPU and stores it back into
  \<open>launchConfigs\<close>. Section 5.2 replaces it; the scene dispatches one invocation per
  (animation, point) pair.
\<close>

definition main_5_1 :: "(vec2 \<Rightarrow> vec2) \<Rightarrow> GlobalParams \<Rightarrow> nat \<Rightarrow> buffers \<Rightarrow> buffers" where
  "main_5_1 tex globalParams animationIndex s =
     (if animationIndex \<ge> u32 (maxAnimations globalParams) then s
      else
        let config = launchConfigs s ! animationIndex in
        if active config < 0.5 then
          s\<lparr>instanceMatrices := setInactiveInstance animationIndex (instanceMatrices s)\<rparr>
        else
          let config = config\<lparr>phase := clamp (elapsedTime config / totalDuration config) 0 1\<rparr>;
              config = config\<lparr>elapsedTime := elapsedTime config + deltaTime globalParams\<rparr>
          in
          if phase config \<ge> 1 then
            let config = config\<lparr>active := 0\<rparr> in
            s\<lparr>instanceMatrices := setInactiveInstance animationIndex (instanceMatrices s),
              launchConfigs := (launchConfigs s)[animationIndex := config]\<rparr>
          else
            let strokeAIndex' = u32 (strokeAIndex config);
                strokeBIndex' = u32 (strokeBIndex config);
                strokePointA = sampleStroke tex strokeAIndex' (phase config);
                strokePointB = sampleStroke tex strokeBIndex' (phase config);
                interpolatedPoint = mix strokePointA strokePointB (interpolationT config);
                canvasPos = transformToCanvas interpolatedPoint config;
                ndc = canvasToNDC canvasPos (canvasWidth globalParams) (canvasHeight globalParams)
            in s\<lparr>instanceMatrices :=
                     buildTransformMatrix animationIndex ndc (scale config) (instanceMatrices s),
                   launchConfigs := (launchConfigs s)[animationIndex := config]\<rparr>)"

text \<open>
  The kernel of section 5.2: one invocation per (animation, point) pair, with the
  wavefront function deciding which points are revealed.
\<close>

definition main_5_2 :: "(vec2 \<Rightarrow> vec2) \<Rightarrow> GlobalParams \<Rightarrow> nat \<Rightarrow> buffers \<Rightarrow> buffers" where
  "main_5_2 tex globalParams globalIndex s =
     (let strokeIndex = globalIndex div POINTS_PER_STROKE;
          pointIndex = globalIndex mod POINTS_PER_STROKE
      in
      if strokeIndex \<ge> u32 (maxAnimations globalParams) then s
      else
        let config = launchConfigs s ! strokeIndex in
        if active config < 0.5 then
          s\<lparr>instanceMatrices := setInactiveInstance globalIndex (instanceMatrices s)\<rparr>
        else
          let pointProgress = real pointIndex / real POINTS_PER_STROKE;
              phaseVal = clamp (phaser (phase config) pointProgress 1) 0 0.9999
          in
          if phaseVal \<le> 0.001 then
            s\<lparr>instanceMatrices := setInactiveInstance globalIndex (instanceMatrices s)\<rparr>
          else
            let strokePointA = sampleStroke tex (u32 (strokeAIndex config)) pointProgress;
                strokePointB = sampleStroke tex (u32 (strokeBIndex config)) pointProgress;
                interpolatedPoint = mix strokePointA strokePointB (interpolationT config);
                canvasPos = transformToCanvas interpolatedPoint config;
                ndc = canvasToNDC canvasPos (canvasWidth globalParams) (canvasHeight globalParams);
                instanceIndex = globalIndex;
                pointScale = 0.003 * phaseVal
            in s\<lparr>instanceMatrices :=
                     buildTransformMatrix instanceIndex ndc pointScale (instanceMatrices s)\<rparr>)"

subsection \<open>The scene that drives the kernel (\<open>DrawingScene\<close>)\<close>

text \<open>
  The fields initialised from \<open>DRAWING_CONSTANTS\<close>, the global parameters written by
  \<open>setupComputeShader\<close> (a fresh uniform buffer holds zeros), and the orthographic
  frustum of \<open>setupCamera\<close>: \<open>x\<close> between \<open>-aspectRatio\<close> and \<open>aspectRatio\<close>, \<open>y\<close>
  between \<open>-1\<close> and \<open>1\<close>.
\<close>

definition scene_maxAnimations :: nat where
  "scene_maxAnimations = MAX_ANIMATIONS"

definition scene_pointsPerStroke :: nat where
  "scene_pointsPerStroke = POINTS_PER_STROKE"

definition scene_maxInstances :: nat where
  "scene_maxInstances = scene_maxAnimations * scene_pointsPerStroke"

definition scene_globalParams :: GlobalParams where
  "scene_globalParams =
     \<lparr>time = 0, canvasWidth = CANVAS_WIDTH, canvasHeight = CANVAS_HEIGHT,
      maxAnimations = real scene_maxAnimations, deltaTime = 0,
      padding1 = 0, padding2 = 0, padding3 = 0\<rparr>"

definition in_frustum :: "vec4 \<Rightarrow> bool" where
  "in_frustum v =
     (let aspectRatio = CANVAS_WIDTH / CANVAS_HEIGHT;
          x = fst v; y = fst (snd v)
      in - aspectRatio \<le> x \<and> x \<le> aspectRatio \<and> - 1 \<le> y \<and> y \<le> 1)"

subsection \<open>A concrete frame\<close>

text \<open>
  One active animation half way through its two seconds, a texture whose \<open>x\<close> grows
  along the stroke, and an instance buffer of 4096 rows. The theorems below are
  evaluated on it.
\<close>

definition example_tex :: "vec2 \<Rightarrow> vec2" where
  "example_tex uv = (fst uv * 100, 50)"

definition example_config :: LaunchConfig where
  "example_config =
     \<lparr>strokeAIndex = 0, strokeBIndex = 1, interpolationT = 0, totalDuration = 2,
      elapsedTime = 1, startPointX = 640, startPointY = 360, scale = 1,
      active = 1, phase = 1/2, reserved1 = 0, reserved2 = 0\<rparr>"

definition example_params :: GlobalParams where
  "example_params = scene_globalParams\<lparr>time := 1, deltaTime := 1/50\<rparr>"

definition example_buffers :: buffers where
  "example_buffers =
     \<lparr>instanceMatrices = replicate 4096 (0, 0, 0, 0), launchConfigs = [example_config]\<rparr>"

section \<open>The stroke bank (\<open>StrokeTextureManager\<close>)\<close>

text \<open>
  A JavaScript \<open>number\<close>: a finite value, one of the two infinities, or NaN.
  \<open>isFinite\<close> is the global function; \<open>js_less a b\<close> is \<open>a < b\<close>, which is false
  whenever an operand is NaN (\<open>a > b\<close> is \<open>js_less b a\<close>).
\<close>

datatype number = Num real | Infinity | NegInfinity | NaN

fun isFinite :: "number \<Rightarrow> bool" where
  "isFinite (Num r) = True"
| "isFinite Infinity = False"
| "isFinite NegInfinity = False"
| "isFinite NaN = False"

fun js_less :: "number \<Rightarrow> number \<Rightarrow> bool" where
  "js_less NaN b = False"
| "js_less a NaN = False"
| "js_less (Num a) (Num b) = (a < b)"
| "js_less (Num a) Infinity = True"
| "js_less (Num a) NegInfinity = False"
| "js_less Infinity b = False"
| "js_less NegInfinity NegInfinity = False"
| "js_less NegInfinity b = True"

text \<open>
  \<open>a >= b\<close>, the sum and the product of two numbers. Arithmetic on finite values is
  exact: the rounding of doubles is not modelled.
\<close>

fun js_greater_eq :: "number \<Rightarrow> number \<Rightarrow> bool" where
  "js_greater_eq NaN b = False"
| "js_greater_eq a NaN = False"
| "js_greater_eq (Num a) (Num b) = (a \<ge> b)"
| "js_greater_eq (Num a) Infinity = False"
| "js_greater_eq (Num a) NegInfinity = True"
| "js_greater_eq Infinity b = True"
| "js_greater_eq NegInfinity NegInfinity = True"
| "js_greater_eq NegInfinity b = False"

fun js_plus :: "number \<Rightarrow> number \<Rightarrow> number" where
  "js_plus NaN b = NaN"
| "js_plus a NaN = NaN"
| "js_plus (Num a) (Num b) = Num (a + b)"
| "js_plus Infinity NegInfinity = NaN"
| "js_plus NegInfinity Infinity = NaN"
| "js_plus Infinity b = Infinity"
| "js_plus NegInfinity b = NegInfinity"
| "js_plus (Num a) b = b"

fun js_negate :: "number \<Rightarrow> number" where
  "js_negate (Num a) = Num (- a)"
| "js_negate Infinity = NegInfinity"
| "js_negate NegInfinity = Infinity"
| "js_negate NaN = NaN"

fun js_times :: "number \<Rightarrow> number \<Rightarrow> number" where
  "js_times NaN b = NaN"
| "js_times a NaN = NaN"
| "js_times (Num a) (Num b) = Num (a * b)"
| "js_times (Num a) b = (if a = 0 then NaN else if a > 0 then b else js_negate b)"
| "js_times a (Num b) = (if b = 0 then NaN else if b > 0 then a else js_negate a)"
| "js_times Infinity b = b"
| "js_times NegInfinity b = js_negate b"

text \<open>
  \<open>StrokePoint\<close> has the fields \<open>x\<close>, \<open>y\<close> and \<open>t\<close>; they carry a prefix here.
\<close>

record StrokePoint =
  point_x :: number
  point_y :: number
  point_t :: number

text \<open>
  The state of a \<open>StrokeTextureManager\<close>. \<open>textureData\<close> is the \<open>Float32Array\<close>;
  a store into it rounds the value to single precision, which is the parameter
  \<open>fround\<close> of the functions below. \<open>ta_store td k v\<close> is the assignment
  \<open>td[k] = v\<close> for a number \<open>k\<close>: it writes when \<open>k\<close> is an integer inside the array
  and does nothing otherwise (a fractional, negative, too large, infinite or NaN key). \<open>strokeTexture\<close> is the GPU texture, kept as the list of the
  arrays handed to it, oldest first: the array of the constructor, then one per call of
  \<open>strokeTexture.update\<close>. \<open>Float16Array xs\<close> stands for \<open>new Float16Array(xs)\<close>.
\<close>

datatype gpu_array = Float16Array "number list" | Float32Array "number list"

record StrokeTextureManager =
  maxStrokes :: nat
  pointsPerStroke :: nat
  textureData :: "number list"
  strokeTexture :: "gpu_array list"

definition createStrokeTexture :: StrokeTextureManager where
  "createStrokeTexture =
     \<lparr>maxStrokes = MAX_STROKES, pointsPerStroke = POINTS_PER_STROKE,
      textureData = replicate (POINTS_PER_STROKE * MAX_STROKES * 2) (Num 0),
      strokeTexture = [Float16Array (replicate (POINTS_PER_STROKE * MAX_STROKES * 2) (Num 0))]\<rparr>"

text \<open>
  The two \<open>Error\<close>s thrown by \<open>uploadStroke\<close>, with the values their messages print.
  A call returns the error, if one was thrown, and the state it leaves behind.
\<close>

datatype error = StrokeIndexOutOfRange number nat | WrongPointCount nat nat

definition ta_store :: "number list \<Rightarrow> number \<Rightarrow> number \<Rightarrow> number list" where
  "ta_store td k v =
     (case k of
        Num r \<Rightarrow>
          if r = of_int \<lfloor>r\<rfloor> \<and> 0 \<le> r \<and> r < real (length td) then td[nat \<lfloor>r\<rfloor> := v] else td
      | _ \<Rightarrow> td)"

text \<open>
  The copy loop of \<open>uploadStroke\<close> and \<open>uploadStrokes\<close>. \<open>strokeIndex\<close> is a
  \<open>number\<close>, so \<open>rowStartIndex\<close> and \<open>bufferIndex\<close> are numbers too.
\<close>

fun copyPoints :: "(number \<Rightarrow> number) \<Rightarrow> number \<Rightarrow> nat \<Rightarrow> StrokePoint list \<Rightarrow> number list \<Rightarrow> number list" where
  "copyPoints fround rowStartIndex i [] td = td"
| "copyPoints fround rowStartIndex i (point # rest) td =
     (let bufferIndex = js_plus rowStartIndex (Num (real (i * 2)));
          td1 = ta_store td bufferIndex (fround (point_x point));
          td2 = ta_store td1 (js_plus bufferIndex (Num 1)) (fround (point_y point))
      in copyPoints fround rowStartIndex (i + 1) rest td2)"

definition uploadStroke ::
  "(number \<Rightarrow> number) \<Rightarrow> StrokeTextureManager \<Rightarrow> number \<Rightarrow> StrokePoint list
     \<Rightarrow> error option \<times> StrokeTextureManager" where
  "uploadStroke fround s strokeIndex points =
     (if js_less strokeIndex (Num 0) \<or> js_greater_eq strokeIndex (Num (real (maxStrokes s))) then
        (Some (StrokeIndexOutOfRange strokeIndex (maxStrokes s)), s)
      else if length points \<noteq> pointsPerStroke s then
        (Some (WrongPointCount (pointsPerStroke s) (length points)), s)
      else
        let rowStartIndex = js_times (js_times strokeIndex (Num (real (pointsPerStroke s)))) (Num 2);
            td = copyPoints fround rowStartIndex 0 points (textureData s)
        in (None, s\<lparr>textureData := td, strokeTexture := strokeTexture s @ [Float16Array td]\<rparr>))"

text \<open>
  A manager as the constructor leaves it and every method keeps it: the two sizes are
  the constants, and the array has \<open>width \<cdot> height \<cdot> 2\<close> cells. \<open>row s r\<close> is the
  \<open>r\<close>-th row of the bank, \<open>texels fround points\<close> the cells a stroke occupies.
\<close>

definition wf_manager :: "StrokeTextureManager \<Rightarrow> bool" where
  "wf_manager s \<longleftrightarrow>
     maxStrokes s = MAX_STROKES \<and> pointsPerStroke s = POINTS_PER_STROKE \<and>
     length (textureData s) = POINTS_PER_STROKE * MAX_STROKES * 2"

definition row :: "StrokeTextureManager \<Rightarrow> nat \<Rightarrow> number list" where
  "row s r = take (pointsPerStroke s * 2) (drop (r * pointsPerStroke s * 2) (textureData s))"

definition texels :: "(number \<Rightarrow> number) \<Rightarrow> StrokePoint list \<Rightarrow> number list" where
  "texels fround points = concat (map (\<lambda>p. [fround (point_x p), fround (point_y p)]) points)"

text \<open>
  The copy loop when the row starts at the cell \<open>rowStartIndex\<close>, a natural number:
  what \<open>copyPoints\<close> does for an integer stroke index (\<open>copyPoints_integer\<close>).
\<close>

fun copyCells :: "(number \<Rightarrow> number) \<Rightarrow> nat \<Rightarrow> nat \<Rightarrow> StrokePoint list \<Rightarrow> number list \<Rightarrow> number list" where
  "copyCells fround rowStartIndex i [] td = td"
| "copyCells fround rowStartIndex i (point # rest) td =
     (let bufferIndex = rowStartIndex + i * 2
      in copyCells fround rowStartIndex (i + 1) rest
           (td[bufferIndex := fround (point_x point), bufferIndex + 1 := fround (point_y point)]))"

text \<open>
  Modelled from the spec: \<open>getStrokeData\<close> is called by \<open>drawDebugTexture\<close>, which
  reads the fields \<open>x\<close> and \<open>y\<close> of the returned points, but its body is not part of
  \<open>strokeTextureManager.ts\<close>. The spec: "returns the row's points for
  inspection/debugging (read-only view)", a row holding two components (x, y) per
  cell. A row exists for an index in \<open>[0, C)\<close> only.
\<close>

definition getStrokeData :: "StrokeTextureManager \<Rightarrow> int \<Rightarrow> (number \<times> number) list option" where
  "getStrokeData s strokeIndex =
     (if strokeIndex < 0 \<or> strokeIndex \<ge> int (maxStrokes s) then None
      else
        let rowStartIndex = nat strokeIndex * pointsPerStroke s * 2
        in Some (map (\<lambda>i. (textureData s ! (rowStartIndex + i * 2),
                            textureData s ! (rowStartIndex + i * 2 + 1)))
                  [0..<pointsPerStroke s]))"

text \<open>
  \<open>validateStrokeData\<close>: the length check, the loop over the points, the loop over
  consecutive points that stops at the first decreasing \<open>t\<close>.
\<close>

datatype validation_error =
    PointCountMismatch nat nat
  | InvalidCoordinates nat number number
  | InvalidT nat number
  | DecreasingT nat number number

record validation =
  valid :: bool
  errors :: "validation_error list"

fun checkCoordinates :: "nat \<Rightarrow> StrokePoint list \<Rightarrow> validation_error list \<Rightarrow> validation_error list" where
  "checkCoordinates i [] errs = errs"
| "checkCoordinates i (point # rest) errs =
     (let errs1 = (if \<not> isFinite (point_x point) \<or> \<not> isFinite (point_y point)
                   then errs @ [InvalidCoordinates i (point_x point) (point_y point)] else errs);
          errs2 = (if js_less (point_t point) (Num 0) \<or> js_less (Num 1) (point_t point)
                   then errs1 @ [InvalidT i (point_t point)] else errs1)
      in checkCoordinates (i + 1) rest errs2)"

fun checkProgression :: "nat \<Rightarrow> StrokePoint list \<Rightarrow> validation_error list \<Rightarrow> validation_error list" where
  "checkProgression i (prev # point # rest) errs =
     (if js_less (point_t point) (point_t prev)
      then errs @ [DecreasingT i (point_t point) (point_t prev)]
      else checkProgression (i + 1) (point # rest) errs)"
| "checkProgression i ps errs = errs"

definition validateStrokeData :: "StrokeTextureManager \<Rightarrow> StrokePoint list \<Rightarrow> validation" where
  "validateStrokeData s points =
     (let errors0 = (if length points \<noteq> pointsPerStroke s
                     then [PointCountMismatch (pointsPerStroke s) (length points)] else []);
          errors1 = checkCoordinates 0 points errors0;
          errors2 = checkProgression 1 points errors1
      in \<lparr>valid = (length errors2 = 0), errors = errors2\<rparr>)"

text \<open>Concrete points and a concrete batch, for evaluating the theorems.\<close>

definition example_point :: StrokePoint where
  "example_point = \<lparr>point_x = Num 1, point_y = Num 2, point_t = Num 0\<rparr>"

definition nan_point :: StrokePoint where
  "nan_point = \<lparr>point_x = Num 0, point_y = Num 0, point_t = NaN\<rparr>"

text \<open>
  \<open>uploadStrokes\<close>: the loop over the batch carries the manager, the flag
  \<open>needsUpdate\<close> and the warnings written by \<open>console.warn\<close>; a skipped entry is a
  \<open>continue\<close>. The call returns the manager and the warnings.
\<close>

record stroke_entry =
  index :: number
  points :: "StrokePoint list"

datatype warning = SkipOutOfRange number nat | SkipPointCount number nat nat

fun uploadStrokes_loop ::
  "(number \<Rightarrow> number) \<Rightarrow> stroke_entry list \<Rightarrow> StrokeTextureManager \<times> bool \<times> warning list
     \<Rightarrow> StrokeTextureManager \<times> bool \<times> warning list" where
  "uploadStrokes_loop fround [] acc = acc"
| "uploadStrokes_loop fround (stroke # rest) (s, needsUpdate, console) =
     (if js_less (index stroke) (Num 0)
         \<or> js_greater_eq (index stroke) (Num (real (maxStrokes s))) then
        uploadStrokes_loop fround rest
          (s, needsUpdate, console @ [SkipOutOfRange (index stroke) (maxStrokes s)])
      else if length (points stroke) \<noteq> pointsPerStroke s then
        uploadStrokes_loop fround rest
          (s, needsUpdate,
           console @ [SkipPointCount (index stroke) (length (points stroke)) (pointsPerStroke s)])
      else
        let rowStartIndex =
              js_times (js_times (index stroke) (Num (real (pointsPerStroke s)))) (Num 2)
        in uploadStrokes_loop fround rest
             (s\<lparr>textureData := copyPoints fround rowStartIndex 0 (points stroke) (textureData s)\<rparr>,
              True, console))"

definition uploadStrokes ::
  "(number \<Rightarrow> number) \<Rightarrow> StrokeTextureManager \<Rightarrow> stroke_entry list
     \<Rightarrow> StrokeTextureManager \<times> warning list" where
  "uploadStrokes fround s strokes =
     (case uploadStrokes_loop fround strokes (s, False, []) of
        (s', needsUpdate, console) \<Rightarrow>
          (if needsUpdate
           then s'\<lparr>strokeTexture := strokeTexture s' @ [Float32Array (textureData s')]\<rparr>
           else s',
           console))"

text \<open>
  For stating what a batch of integer indices does: \<open>integer_index v\<close> says that the
  number \<open>v\<close> is an integer and \<open>index_int v\<close> is that integer; an entry is applied
  when \<open>entry_ok\<close> holds, a skipped entry leaves \<open>entry_warning\<close>, and
  \<open>entries_for r batch\<close> are the applied entries of row \<open>r\<close>, in batch order.
\<close>

definition integer_index :: "number \<Rightarrow> bool" where
  "integer_index v = (case v of Num r \<Rightarrow> r = of_int \<lfloor>r\<rfloor> | _ \<Rightarrow> False)"

definition index_int :: "number \<Rightarrow> int" where
  "index_int v = (case v of Num r \<Rightarrow> \<lfloor>r\<rfloor> | _ \<Rightarrow> 0)"

definition entry_ok :: "stroke_entry \<Rightarrow> bool" where
  "entry_ok e \<longleftrightarrow>
     0 \<le> index_int (index e) \<and> index_int (index e) < 64 \<and> length (points e) = 1024"

definition entry_warning :: "stroke_entry \<Rightarrow> warning" where
  "entry_warning e =
     (if index_int (index e) < 0 \<or> index_int (index e) \<ge> 64 then SkipOutOfRange (index e) 64
      else SkipPointCount (index e) (length (points e)) 1024)"

definition entries_for :: "nat \<Rightarrow> stroke_entry list \<Rightarrow> stroke_entry list" where
  "entries_for r batch = filter (\<lambda>e. entry_ok e \<and> nat (index_int (index e)) = r) batch"

definition example_batch :: "stroke_entry list" where
  "example_batch =
     [\<lparr>index = Num 3, points = replicate 1024 example_point\<rparr>,
      \<lparr>index = Num 64, points = []\<rparr>,
      \<lparr>index = Num 5, points = [example_point]\<rparr>]"

definition nan_batch :: "stroke_entry list" where
  "nan_batch = [\<lparr>index = NaN, points = replicate 1024 example_point\<rparr>]"

text \<open>
  Membership in \<open>[0,1]\<close> and \<open>\<le>\<close> on finite numbers, for stating what the validator
  accepts.
\<close>

definition in_unit_interval :: "number \<Rightarrow> bool" where
  "in_unit_interval v = (case v of Num r \<Rightarrow> 0 \<le> r \<and> r \<le> 1 | _ \<Rightarrow> False)"

definition num_le :: "number \<Rightarrow> number \<Rightarrow> bool" where
  "num_le a b = (case (a, b) of (Num p, Num q) \<Rightarrow> p \<le> q | _ \<Rightarrow> False)"

section \<open>The stroke normalizer (\<open>StrokeInterpolator.normalizeStroke\<close>)\<close>

text \<open>
  Modelled from the spec: \<open>normalizeStroke\<close> is called by \<open>setupStrokeData\<close> and
  declared in the implementation plan, but \<open>strokeInterpolator.ts\<close> is not among the
  sources. The definitions follow section 4.1 of the spec: a stroke all of whose points
  are within \<open>eps\<close> of each other fails with \<open>DegenerateStrokeError\<close>; otherwise
  consecutive duplicate points are collapsed, the cumulative arc lengths \<open>L\<close> of the
  cleaned polyline are computed, and sample \<open>j\<close> of \<open>N\<close> has \<open>t = j/(N-1)\<close>, target
  length \<open>u = t \<cdot> L_total\<close>, the bracketing segment \<open>[L_i, L_(i+1)]\<close>, and the
  Catmull-Rom point through the four nearest source points at the segment's local
  parameter.

  The input is the list of the stroke's positions, with finite coordinates. A quotient
  is a \<open>number\<close>: dividing by zero gives \<open>NaN\<close> or an infinity, as in JavaScript, and
  a sample computed from a non-finite parameter has non-finite coordinates.
\<close>

datatype normalize_error = DegenerateStrokeError

definition distance :: "vec2 \<Rightarrow> vec2 \<Rightarrow> real" where
  "distance p q = sqrt ((fst q - fst p)\<^sup>2 + (snd q - snd p)\<^sup>2)"

definition degenerate :: "real \<Rightarrow> vec2 list \<Rightarrow> bool" where
  "degenerate eps ps = list_all (\<lambda>p. list_all (\<lambda>q. distance p q \<le> eps) ps) ps"

fun cumulativeLengths :: "real \<Rightarrow> vec2 list \<Rightarrow> real list" where
  "cumulativeLengths acc (p # q # rest) = acc # cumulativeLengths (acc + distance p q) (q # rest)"
| "cumulativeLengths acc ps = [acc]"

fun locateSegment :: "real list \<Rightarrow> real \<Rightarrow> nat" where
  "locateSegment (l # l' # ls) u = (if u \<le> l then 0 else Suc (locateSegment (l' # ls) u))"
| "locateSegment ls u = 0"

definition catmullRom :: "real \<Rightarrow> real \<Rightarrow> real \<Rightarrow> real \<Rightarrow> real \<Rightarrow> real" where
  "catmullRom p0 p1 p2 p3 s =
     0.5 * (2 * p1 + (p2 - p0) * s + (2 * p0 - 5 * p1 + 4 * p2 - p3) * s\<^sup>2
            + (3 * p1 - p0 - 3 * p2 + p3) * s ^ 3)"

definition num_div :: "real \<Rightarrow> real \<Rightarrow> number" where
  "num_div a b =
     (if b \<noteq> 0 then Num (a / b)
      else if a = 0 then NaN else if a > 0 then Infinity else NegInfinity)"

definition sampleAt :: "vec2 list \<Rightarrow> real list \<Rightarrow> nat \<Rightarrow> StrokePoint" where
  "sampleAt ps L j =
     (case num_div (real j) (real (POINTS_PER_STROKE - 1)) of
        Num tj \<Rightarrow>
          (let u = tj * last L;
               i = locateSegment (tl L) u;
               p0 = ps ! (i - 1); p1 = ps ! i; p2 = ps ! (i + 1);
               p3 = ps ! (min (i + 2) (length ps - 1))
           in case num_div (u - L ! i) (L ! (i + 1) - L ! i) of
                Num s \<Rightarrow>
                  \<lparr>point_x = Num (catmullRom (fst p0) (fst p1) (fst p2) (fst p3) s),
                   point_y = Num (catmullRom (snd p0) (snd p1) (snd p2) (snd p3) s),
                   point_t = Num tj\<rparr>
              | v \<Rightarrow> \<lparr>point_x = NaN, point_y = NaN, point_t = Num tj\<rparr>)
      | v \<Rightarrow> \<lparr>point_x = NaN, point_y = NaN, point_t = v\<rparr>)"

definition normalizeStroke :: "real \<Rightarrow> vec2 list \<Rightarrow> normalize_error + StrokePoint list" where
  "normalizeStroke eps ps =
     (if degenerate eps ps then Inl DegenerateStrokeError
      else
        let cleaned = remdups_adj ps;
            L = cumulativeLengths 0 cleaned
        in Inr (map (sampleAt cleaned L) [0..<POINTS_PER_STROKE]))"

section \<open>The animation scheduler (\<open>DrawLifecycleManager\<close>) and the frame loop\<close>

text \<open>
  Modelled from the spec: \<open>DrawLifecycleManager\<close> is constructed and called by
  \<open>DrawingScene\<close> (\<open>tick\<close>, \<open>getGPUBuffer\<close>, \<open>launchFromMouseClick\<close>,
  \<open>clearAll\<close>, \<open>getStatus\<close>) and sketched in the implementation plan with empty
  method bodies, but \<open>drawLifecycleManager.ts\<close> is not among the sources. The
  definitions follow section 4.3 of the spec.

  The scheduler owns the active table \<open>slots\<close> (one entry per slot, \<open>None\<close> for a
  free slot), the FIFO queue \<open>pending\<close>, an optional bound on its length, the minimal
  duration to which a duration \<open>\<le> 0\<close> is clamped, and the record buffer.
\<close>

datatype scheduler_error = InvalidStrokeIndexError | CapacityExceededError

record animation =
  anim_id :: nat
  anim_config :: LaunchConfig
  startTime :: real
  deadline :: real
  cancelled :: bool

record scheduler =
  slots :: "animation option list"
  pending :: "animation list"
  pendingLimit :: "nat option"
  minDuration :: real
  nextId :: nat
  recordBuffer :: "LaunchConfig list"

definition emptyRecord :: LaunchConfig where
  "emptyRecord =
     \<lparr>strokeAIndex = 0, strokeBIndex = 0, interpolationT = 0, totalDuration = 0,
      elapsedTime = 0, startPointX = 0, startPointY = 0, scale = 0,
      active = 0, phase = 0, reserved1 = 0, reserved2 = 0\<rparr>"

definition newScheduler :: "nat \<Rightarrow> nat option \<Rightarrow> real \<Rightarrow> scheduler" where
  "newScheduler K limit eps =
     \<lparr>slots = replicate K None, pending = [], pendingLimit = limit, minDuration = eps,
      nextId = 0, recordBuffer = replicate K emptyRecord\<rparr>"

fun findFreeSlot :: "nat \<Rightarrow> animation option list \<Rightarrow> nat option" where
  "findFreeSlot i [] = None"
| "findFreeSlot i (None # rest) = Some i"
| "findFreeSlot i (Some a # rest) = findFreeSlot (i + 1) rest"

text \<open>
  \<open>addAnimation\<close>: the stroke indices are validated first; the identifier and the
  deadline are assigned, a duration \<open>\<le> 0\<close> is clamped; the animation takes a free
  slot if there is one and joins the queue otherwise, unless the queue is full.
\<close>

definition addAnimation ::
  "real \<Rightarrow> LaunchConfig \<Rightarrow> scheduler \<Rightarrow> scheduler_error + (nat \<times> scheduler)" where
  "addAnimation now cfg s =
     (if \<not> (0 \<le> strokeAIndex cfg \<and> strokeAIndex cfg < real MAX_STROKES
             \<and> 0 \<le> strokeBIndex cfg \<and> strokeBIndex cfg < real MAX_STROKES)
      then Inl InvalidStrokeIndexError
      else
        let d = (if totalDuration cfg \<le> 0 then minDuration s else totalDuration cfg);
            a = \<lparr>anim_id = nextId s, anim_config = cfg\<lparr>totalDuration := d\<rparr>,
                 startTime = now, deadline = now + d, cancelled = False\<rparr>
        in case findFreeSlot 0 (slots s) of
             Some i \<Rightarrow> Inr (nextId s, s\<lparr>slots := (slots s)[i := Some a], nextId := nextId s + 1\<rparr>)
           | None \<Rightarrow>
               (if (case pendingLimit s of Some n \<Rightarrow> n \<le> length (pending s) | None \<Rightarrow> False)
                then Inl CapacityExceededError
                else Inr (nextId s, s\<lparr>pending := pending s @ [a], nextId := nextId s + 1\<rparr>)))"

text \<open>
  \<open>cancel\<close> marks an active entry, whose slot the next tick frees, and takes a
  pending entry out of the queue.
\<close>

definition cancel :: "nat \<Rightarrow> scheduler \<Rightarrow> scheduler" where
  "cancel i s =
     s\<lparr>slots := map (map_option (\<lambda>a. if anim_id a = i then a\<lparr>cancelled := True\<rparr> else a)) (slots s),
       pending := filter (\<lambda>a. anim_id a \<noteq> i) (pending s)\<rparr>"

text \<open>
  The four steps of \<open>tick\<close>: recompute \<open>elapsedTime\<close> and \<open>phase\<close> of every active
  entry; free the slot of every entry that is complete (or cancelled); fill the free
  slots from the queue in FIFO order, with \<open>startTime = currentTime\<close>; serialize the
  whole table into the record buffer, an empty slot as a record with \<open>active = 0\<close>.
\<close>

definition advance :: "real \<Rightarrow> animation \<Rightarrow> animation" where
  "advance currentTime a =
     (let e = currentTime - startTime a;
          c = anim_config a
      in a\<lparr>anim_config := c\<lparr>elapsedTime := e, phase := clamp (e / totalDuration c) 0 1\<rparr>\<rparr>)"

definition retire :: "animation option \<Rightarrow> animation option" where
  "retire slot =
     (case slot of
        None \<Rightarrow> None
      | Some a \<Rightarrow> if phase (anim_config a) \<ge> 1 \<or> cancelled a then None else Some a)"

fun admit :: "real \<Rightarrow> animation option list \<Rightarrow> animation list
    \<Rightarrow> animation option list \<times> animation list" where
  "admit currentTime [] queue = ([], queue)"
| "admit currentTime (Some a # rest) queue =
     (case admit currentTime rest queue of (rest', queue') \<Rightarrow> (Some a # rest', queue'))"
| "admit currentTime (None # rest) [] =
     (case admit currentTime rest [] of (rest', queue') \<Rightarrow> (None # rest', queue'))"
| "admit currentTime (None # rest) (p # queue) =
     (case admit currentTime rest queue of
        (rest', queue') \<Rightarrow> (Some (p\<lparr>startTime := currentTime\<rparr>) # rest', queue'))"

definition serializeSlot :: "animation option \<Rightarrow> LaunchConfig" where
  "serializeSlot slot =
     (case slot of None \<Rightarrow> emptyRecord | Some a \<Rightarrow> (anim_config a)\<lparr>active := 1\<rparr>)"

definition tick :: "real \<Rightarrow> scheduler \<Rightarrow> scheduler" where
  "tick currentTime s =
     (let table = map (\<lambda>slot. retire (map_option (advance currentTime) slot)) (slots s)
      in case admit currentTime table (pending s) of
           (table', queue') \<Rightarrow>
             s\<lparr>slots := table', pending := queue', recordBuffer := map serializeSlot table'\<rparr>)"

text \<open>
  The frame loop of \<open>DrawingScene.startRenderLoop\<close>, which is in the sources: the
  tick, the update of the global parameters, and the dispatch of
  \<open>ceil(totalThreads / workgroupSize)\<close> workgroups of 64 invocations of the kernel.
  The kernel's \<open>launchConfigs\<close> is the scheduler's buffer (\<open>getGPUBuffer\<close>), so
  whatever the kernel stored there would be in the scheduler's buffer after the frame.
  The invocations of one dispatch are run in the order of their global index.
\<close>

definition dispatch :: "(vec2 \<Rightarrow> vec2) \<Rightarrow> GlobalParams \<Rightarrow> nat \<Rightarrow> buffers \<Rightarrow> buffers" where
  "dispatch tex globalParams workgroups b =
     fold (main_5_2 tex globalParams) [0..<workgroups * WORKGROUP_SIZE] b"

definition frame ::
  "(vec2 \<Rightarrow> vec2) \<Rightarrow> real \<Rightarrow> real \<Rightarrow> scheduler \<times> GlobalParams \<times> vec4 list
     \<Rightarrow> scheduler \<times> GlobalParams \<times> vec4 list" where
  "frame tex currentTime dt st =
     (case st of
        (s, globalParams, matrices) \<Rightarrow>
          let s1 = tick currentTime s;
              globalParams' = globalParams\<lparr>time := currentTime, deltaTime := dt\<rparr>;
              totalThreads = scene_maxAnimations * scene_pointsPerStroke;
              workgroups = (totalThreads + WORKGROUP_SIZE - 1) div WORKGROUP_SIZE;
              b = dispatch tex globalParams' workgroups
                    \<lparr>instanceMatrices = matrices, launchConfigs = recordBuffer s1\<rparr>
          in (s1\<lparr>recordBuffer := launchConfigs b\<rparr>, globalParams', instanceMatrices b))"

definition example_scheduler :: scheduler where
  "example_scheduler =
     \<lparr>slots = [Some \<lparr>anim_id = 0, anim_config = example_config, startTime = 0,
                     deadline = 2, cancelled = False\<rparr>, None],
      pending = [], pendingLimit = None, minDuration = 1/1000, nextId = 1,
      recordBuffer = [emptyRecord, emptyRecord]\<rparr>"

section \<open>Properties of the wavefront function\<close>

lemma clamp_mono: "a \<le> b \<Longrightarrow> clamp a lo hi \<le> clamp b lo hi"
  by (simp add: clamp_def min_def max_def)

lemma clamp_unit_eq_one: "clamp v 0 1 = 1 \<longleftrightarrow> 1 \<le> v"
  by (auto simp add: clamp_def min_def max_def)

text \<open>
  C4, as stated: \<open>phaser(pct, 1, e) = 1\<close> for all \<open>pct\<close> and \<open>e\<close>. At \<open>pct = 0\<close>,
  \<open>e = 1\<close> the value is \<open>clamp((1 - 1 + 0) / 1, 0, 1) = 0\<close>.
\<close>

theorem phaser_phase_one_counterexample: "phaser 0 1 1 \<noteq> 1"
  by (simp add: phaser_def clamp_def)

text \<open>
  C4, amended: for a positive edge width \<open>e\<close>, \<open>phaser(pct, 1, e)\<close> equals 1 exactly
  when \<open>pct\<cdot>(1+e) \<ge> e\<close>, that is when \<open>pct \<ge> e/(1+e)\<close>; so it is 1 at \<open>pct = 1\<close>
  and it is not 1 at \<open>pct = 0\<close>.
\<close>

theorem phaser_phase_one:
  assumes "0 < e"
  shows "phaser pct 1 e = 1 \<longleftrightarrow> e \<le> pct * (1 + e)"
proof -
  have "phaser pct 1 e = 1 \<longleftrightarrow> 1 \<le> (pct * (1 + e)) / e"
    by (simp add: phaser_def clamp_unit_eq_one)
  also have "\<dots> \<longleftrightarrow> e \<le> pct * (1 + e)"
    using assms by (simp add: le_divide_eq)
  finally show ?thesis .
qed

theorem phaser_phase_one_witness:
  "(0::real) < 1 \<and> (phaser 1 1 1 = 1 \<longleftrightarrow> (1::real) \<le> 1 * (1 + 1))"
  using phaser_phase_one [of 1 1] by simp

text \<open>
  C5: for a fixed \<open>pct\<close> and a fixed positive edge width \<open>e\<close> (the kernel uses \<open>e = 1\<close>),
  \<open>phaser\<close> is nondecreasing in \<open>phase\<close>: \<open>phase1 \<le> phase2\<close> implies
  \<open>phaser(pct, phase1, e) \<le> phaser(pct, phase2, e)\<close>. The bound \<open>pct, phase \<in> [0,1]\<close>
  of the claim is not needed.
\<close>

theorem phaser_mono_phase:
  assumes "0 < e" and "phase1 \<le> phase2"
  shows "phaser pct phase1 e \<le> phaser pct phase2 e"
proof -
  have "(phase1 - 1 + pct * (1 + e)) / e \<le> (phase2 - 1 + pct * (1 + e)) / e"
    using assms by (simp add: divide_right_mono)
  then show ?thesis
    unfolding phaser_def by (rule clamp_mono)
qed

theorem phaser_mono_phase_witness:
  "(0::real) < 1 \<and> (1/4::real) \<le> 3/4 \<and> phaser (1/2) (1/4) 1 \<le> phaser (1/2) (3/4) 1"
  using phaser_mono_phase [of 1 "1/4" "3/4" "1/2"] by simp

section \<open>Properties of the kernel\<close>

lemma setInactiveInstance_eq:
  assumes "4 * g + 3 < 2 ^ 32"
  shows "setInactiveInstance g m = m[4 * g + 3 := (- 10000, 0, 0, 1)]"
proof -
  have "(g * 4) mod 2 ^ 32 = g * 4" using assms by simp
  moreover have "(g * 4 + 3) mod 2 ^ 32 = 4 * g + 3" using assms by (simp add: mult.commute)
  ultimately show ?thesis by (simp add: setInactiveInstance_def)
qed

lemma buildTransformMatrix_eq:
  assumes "4 * g + 3 < 2 ^ 32"
  shows "buildTransformMatrix g p sc m =
     m[4 * g := (sc, 0, 0, 0), 4 * g + 1 := (0, sc, 0, 0),
       4 * g + 2 := (0, 0, 1, 0), 4 * g + 3 := (fst p, snd p, 0, 1)]"
proof -
  have b: "(g * 4) mod 2 ^ 32 = 4 * g" using assms by (simp add: mult.commute)
  have k: "(4 * g + k) mod 2 ^ 32 = 4 * g + k" if "k \<le> 3" for k
    using assms that by simp
  show ?thesis
    unfolding buildTransformMatrix_def Let_def b
    using k [of 0] k [of 1] k [of 2] k [of 3] by simp
qed

lemma offscreen_translation: "\<not> in_frustum (- 10000, 0, 0, 1)"
  by (simp add: in_frustum_def CANVAS_WIDTH_def CANVAS_HEIGHT_def)

text \<open>
  C3: for a kernel unit \<open>(slot, pointIndex)\<close> with \<open>slot < K\<close> and
  \<open>pointIndex < N\<close>, whose four rows lie inside the instance buffer: if the slot's
  record is inactive (the shader tests \<open>active < 0.5\<close>, which for the flag values 0 and 1
  is \<open>active = 0\<close>) or the reveal value is at most the threshold \<open>0.001\<close>, the unit
  writes the translation row \<open>(-10000, 0, 0, 1)\<close>, which lies outside the camera
  frustum, and changes nothing else; otherwise it writes exactly the four rows of one
  transform, with uniform scale \<open>0.003 \<cdot> reveal\<close> and the device-space position as
  translation, and changes nothing else.
\<close>

theorem kernel_unit:
  fixes tex gp s slot pointIndex
  defines "g \<equiv> slot * POINTS_PER_STROKE + pointIndex"
  defines "c \<equiv> launchConfigs s ! slot"
  defines "pointProgress \<equiv> real pointIndex / real POINTS_PER_STROKE"
  defines "reveal \<equiv> clamp (phaser (phase c) pointProgress 1) 0 0.9999"
  defines "ndc \<equiv> canvasToNDC
      (transformToCanvas
         (mix (sampleStroke tex (u32 (strokeAIndex c)) pointProgress)
              (sampleStroke tex (u32 (strokeBIndex c)) pointProgress)
              (interpolationT c)) c)
      (canvasWidth gp) (canvasHeight gp)"
  assumes slot: "slot < u32 (maxAnimations gp)"
    and point: "pointIndex < POINTS_PER_STROKE"
    and inb: "4 * g + 3 < length (instanceMatrices s)"
    and nowrap: "4 * g + 3 < 2 ^ 32"
  shows "(active c < 0.5 \<or> reveal \<le> 0.001 \<longrightarrow>
           main_5_2 tex gp g s = s\<lparr>instanceMatrices := (instanceMatrices s)[4 * g + 3 := (- 10000, 0, 0, 1)]\<rparr>
           \<and> \<not> in_frustum (instanceMatrices (main_5_2 tex gp g s) ! (4 * g + 3)))
       \<and> (\<not> (active c < 0.5 \<or> reveal \<le> 0.001) \<longrightarrow>
           main_5_2 tex gp g s = s\<lparr>instanceMatrices := (instanceMatrices s)
               [4 * g := (0.003 * reveal, 0, 0, 0),
                4 * g + 1 := (0, 0.003 * reveal, 0, 0),
                4 * g + 2 := (0, 0, 1, 0),
                4 * g + 3 := (fst ndc, snd ndc, 0, 1)]\<rparr>)"
proof -
  have d: "g div POINTS_PER_STROKE = slot" "g mod POINTS_PER_STROKE = pointIndex"
    unfolding g_def using point by simp_all
  have ns: "\<not> u32 (maxAnimations gp) \<le> slot" using slot by simp
  have cull: "main_5_2 tex gp g s =
      s\<lparr>instanceMatrices := (instanceMatrices s)[4 * g + 3 := (- 10000, 0, 0, 1)]\<rparr>"
    if "active c < 0.5 \<or> reveal \<le> 0.001"
    using that unfolding c_def reveal_def pointProgress_def
    by (auto simp add: main_5_2_def d ns Let_def setInactiveInstance_eq [OF nowrap])
  have off: "\<not> in_frustum ((instanceMatrices s)[4 * g + 3 := (- 10000, 0, 0, 1)] ! (4 * g + 3))"
    using inb by (simp add: offscreen_translation)
  have emit: "main_5_2 tex gp g s = s\<lparr>instanceMatrices := (instanceMatrices s)
               [4 * g := (0.003 * reveal, 0, 0, 0),
                4 * g + 1 := (0, 0.003 * reveal, 0, 0),
                4 * g + 2 := (0, 0, 1, 0),
                4 * g + 3 := (fst ndc, snd ndc, 0, 1)]\<rparr>"
    if "\<not> (active c < 0.5 \<or> reveal \<le> 0.001)"
    using that unfolding c_def reveal_def pointProgress_def ndc_def
    by (simp add: main_5_2_def d ns Let_def buildTransformMatrix_eq [OF nowrap])
  show ?thesis
    using cull off emit by simp
qed


lemma u32_scene: "u32 (maxAnimations scene_globalParams) = 64"
  by (simp add: u32_def scene_globalParams_def scene_maxAnimations_def MAX_ANIMATIONS_def)

lemma u32_example: "u32 (maxAnimations example_params) = 64"
  by (simp add: example_params_def u32_scene)

theorem kernel_unit_witness:
  "main_5_2 example_tex example_params 0 example_buffers =
     example_buffers\<lparr>instanceMatrices :=
       (instanceMatrices example_buffers)[3 := (- 10000, 0, 0, 1)]\<rparr>
   \<and> main_5_2 example_tex example_params 512 example_buffers =
     example_buffers\<lparr>instanceMatrices :=
       (instanceMatrices example_buffers)
         [2048 := (3/2000, 0, 0, 0), 2049 := (0, 3/2000, 0, 0),
          2050 := (0, 0, 1, 0), 2051 := (5/36, - 5/36, 0, 1)]\<rparr>"
proof -
  have r0: "clamp (phaser (phase (launchConfigs example_buffers ! 0)) (real 0 / real POINTS_PER_STROKE) 1) 0 0.9999 = 0"
    by (simp add: example_buffers_def example_config_def phaser_def clamp_def POINTS_PER_STROKE_def)
  have r1: "clamp (phaser (phase (launchConfigs example_buffers ! 0)) (real 512 / real POINTS_PER_STROKE) 1) 0 0.9999 = 1/2"
    by (simp add: example_buffers_def example_config_def phaser_def clamp_def POINTS_PER_STROKE_def)
  have a: "active (launchConfigs example_buffers ! 0) = 1"
    by (simp add: example_buffers_def example_config_def)
  have len: "length (instanceMatrices example_buffers) = 4096"
    by (simp add: example_buffers_def)
  have ndc: "canvasToNDC
      (transformToCanvas
         (mix (sampleStroke example_tex (u32 (strokeAIndex (launchConfigs example_buffers ! 0))) (real 512 / real POINTS_PER_STROKE))
              (sampleStroke example_tex (u32 (strokeBIndex (launchConfigs example_buffers ! 0))) (real 512 / real POINTS_PER_STROKE))
              (interpolationT (launchConfigs example_buffers ! 0))) (launchConfigs example_buffers ! 0))
      (canvasWidth example_params) (canvasHeight example_params) = (5/36, - 5/36)"
    by (simp add: example_buffers_def example_config_def example_params_def scene_globalParams_def
        canvasToNDC_def transformToCanvas_def mix_def sampleStroke_def example_tex_def
        POINTS_PER_STROKE_def CANVAS_WIDTH_def CANVAS_HEIGHT_def Let_def)
  have p: "(0::nat) < POINTS_PER_STROKE" "(512::nat) < POINTS_PER_STROKE"
    by (simp_all add: POINTS_PER_STROKE_def)
  show ?thesis
    using kernel_unit [where tex = example_tex and gp = example_params and s = example_buffers
        and slot = 0 and pointIndex = 0]
      kernel_unit [where tex = example_tex and gp = example_params and s = example_buffers
        and slot = 0 and pointIndex = 512]
    unfolding r0 r1 a ndc
    by (simp add: u32_example p len)
qed

text \<open>
  The first draft of the kernel did store the record of an active slot back.
\<close>

lemma main_5_1_writes_back:
  "i < u32 (maxAnimations gp) \<Longrightarrow> \<not> active (launchConfigs s ! i) < 0.5 \<Longrightarrow>
        launchConfigs (main_5_1 tex gp i s) =
          (launchConfigs s)[i :=
             (let c = launchConfigs s ! i;
                  ph = clamp (elapsedTime c / totalDuration c) 0 1
              in c\<lparr>phase := ph,
                   elapsedTime := elapsedTime c + deltaTime gp,
                   active := (if ph \<ge> 1 then 0 else active c)\<rparr>)]"
  by (simp add: main_5_1_def Let_def)

lemma main_5_2_reads_only: "launchConfigs (main_5_2 tex gp g b) = launchConfigs b"
  by (simp add: main_5_2_def Let_def)

lemma fold_main_5_2_reads_only:
  "launchConfigs (fold (main_5_2 tex gp) gs b) = launchConfigs b"
  by (induction gs arbitrary: b) (simp_all add: main_5_2_reads_only)

lemma dispatch_reads_only: "launchConfigs (dispatch tex gp n b) = launchConfigs b"
  unfolding dispatch_def by (rule fold_main_5_2_reads_only)

lemma addAnimation_buffer:
  "addAnimation now cfg s = Inr (i, s') \<Longrightarrow> recordBuffer s' = recordBuffer s"
  by (auto simp add: addAnimation_def Let_def split: if_splits option.splits)

lemma length_admit: "length (fst (admit t table queue)) = length table"
  by (induction t table queue rule: admit.induct) (auto split: prod.splits)

lemma length_tick_buffer: "length (recordBuffer (tick t s)) = length (slots s)"
proof -
  let ?table = "map (\<lambda>slot. retire (map_option (advance t) slot)) (slots s)"
  have "length (fst (admit t ?table (pending s))) = length ?table"
    by (rule length_admit)
  then show ?thesis
    by (cases "admit t ?table (pending s)") (simp add: tick_def Let_def)
qed

text \<open>
  C9: the record buffer is written by the Scheduler's tick and by nothing else. A
  kernel invocation, and so a whole dispatch, returns \<open>launchConfigs\<close> as it found
  it; \<open>addAnimation\<close> and \<open>cancel\<close> leave the record buffer as it is; after a tick
  the buffer is the serialization of the active table, one record per slot; and after
  a frame the buffer that the kernel read is still the one the tick of that frame
  wrote.
\<close>

theorem record_buffer_single_writer:
  "launchConfigs (main_5_2 tex gp g b) = launchConfigs b
   \<and> launchConfigs (dispatch tex gp n b) = launchConfigs b
   \<and> (addAnimation now cfg s = Inr (i, s') \<longrightarrow> recordBuffer s' = recordBuffer s)
   \<and> recordBuffer (cancel j s) = recordBuffer s
   \<and> recordBuffer (tick t s) = map serializeSlot (slots (tick t s))
   \<and> length (recordBuffer (tick t s)) = length (slots s)
   \<and> (frame tex t dt (s, gp, m) = (sa, gpa, ma) \<longrightarrow>
        recordBuffer sa = recordBuffer (tick t s) \<and> sa = tick t s)"
proof -
  have k: "launchConfigs (main_5_2 tex gp g b) = launchConfigs b" for gp g b
    by (rule main_5_2_reads_only)
  have d: "launchConfigs (dispatch tex gp n b) = launchConfigs b" for gp b
    by (rule dispatch_reads_only)
  have a: "recordBuffer s' = recordBuffer s" if "addAnimation now cfg s = Inr (i, s')"
    using that by (rule addAnimation_buffer)
  have c: "recordBuffer (cancel j s) = recordBuffer s"
    by (simp add: cancel_def)
  have t: "recordBuffer (tick t s) = map serializeSlot (slots (tick t s))"
    by (simp add: tick_def Let_def split: prod.splits)
  have l: "length (recordBuffer (tick t s)) = length (slots s)"
    by (rule length_tick_buffer)
  have f: "recordBuffer sa = recordBuffer (tick t s) \<and> sa = tick t s"
    if "frame tex t dt (s, gp, m) = (sa, gpa, ma)"
  proof -
    have "sa = (tick t s)\<lparr>recordBuffer := recordBuffer (tick t s)\<rparr>"
      using that by (auto simp add: frame_def Let_def dispatch_reads_only)
    then show ?thesis by simp
  qed
  show ?thesis
    using k d a c t l f by blast
qed

theorem record_buffer_single_writer_witness:
  "addAnimation 0 example_config (newScheduler 2 None (1/1000)) = Inr (0, example_scheduler)
   \<and> recordBuffer example_scheduler = recordBuffer (newScheduler 2 None (1/1000))
   \<and> recordBuffer
        (fst (frame example_tex 1 (1/50) (example_scheduler, scene_globalParams, replicate 4096 (0, 0, 0, 0))))
       = recordBuffer (tick 1 example_scheduler)
   \<and> recordBuffer (tick 1 example_scheduler)
       = [example_config\<lparr>elapsedTime := 1, active := 1, phase := 1/2\<rparr>, emptyRecord]"
proof -
  let ?st = "(example_scheduler, scene_globalParams, replicate 4096 (0::real, 0::real, 0::real, 0::real))"
  note inst = record_buffer_single_writer [where now = 0 and cfg = example_config
      and s = "newScheduler 2 None (1/1000)" and i = 0 and s' = example_scheduler]
  have add: "addAnimation 0 example_config (newScheduler 2 None (1/1000)) = Inr (0, example_scheduler)"
    by (simp add: addAnimation_def newScheduler_def example_scheduler_def example_config_def
        MAX_STROKES_def Let_def eval_nat_numeral)
  have buf: "recordBuffer example_scheduler = recordBuffer (newScheduler 2 None (1/1000))"
    using inst add by blast
  have fr: "frame example_tex 1 (1/50) ?st
      = (fst (frame example_tex 1 (1/50) ?st), fst (snd (frame example_tex 1 (1/50) ?st)),
         snd (snd (frame example_tex 1 (1/50) ?st)))"
    by simp
  have after: "recordBuffer (fst (frame example_tex 1 (1/50) ?st)) = recordBuffer (tick 1 example_scheduler)"
    using record_buffer_single_writer [where tex = example_tex and t = 1 and dt = "1/50"
        and s = example_scheduler and gp = scene_globalParams
        and m = "replicate 4096 (0, 0, 0, 0)"
        and sa = "fst (frame example_tex 1 (1/50) ?st)"
        and gpa = "fst (snd (frame example_tex 1 (1/50) ?st))"
        and ma = "snd (snd (frame example_tex 1 (1/50) ?st))"] fr
    by blast
  have ser: "recordBuffer (tick 1 example_scheduler)
       = [example_config\<lparr>elapsedTime := 1, active := 1, phase := 1/2\<rparr>, emptyRecord]"
    by (simp add: tick_def example_scheduler_def advance_def retire_def serializeSlot_def
        example_config_def clamp_def Let_def)
  show ?thesis
    using add buf after ser by simp
qed

text \<open>
  C1, as stated: the slot capacity is 1024. The scene passes
  \<open>DRAWING_CONSTANTS.MAX_ANIMATIONS\<close> to the kernel as \<open>maxAnimations\<close>, and the
  kernel's bound \<open>u32(globalParams.maxAnimations)\<close> is not 1024.
\<close>

theorem slot_capacity_counterexample: "u32 (maxAnimations scene_globalParams) \<noteq> 1024"
  by (simp add: u32_scene)

text \<open>
  C1, amended: the slot capacity is 64. \<open>DrawingScene.maxAnimations\<close> is 64, the
  kernel's slot bound \<open>u32(globalParams.maxAnimations)\<close> is 64, the instance count is
  \<open>64 \<cdot> 1024\<close>, and a kernel unit whose global index is \<open>64 \<cdot> 1024\<close> or more belongs
  to no slot and changes nothing.
\<close>

theorem slot_capacity:
  "scene_maxAnimations = 64
   \<and> u32 (maxAnimations scene_globalParams) = 64
   \<and> scene_maxInstances = 64 * 1024
   \<and> (64 * POINTS_PER_STROKE \<le> g \<longrightarrow> main_5_2 tex scene_globalParams g s = s)"
proof -
  have "64 \<le> g div POINTS_PER_STROKE" if "64 * POINTS_PER_STROKE \<le> g"
    using that by (simp add: POINTS_PER_STROKE_def less_eq_div_iff_mult_less_eq)
  then show ?thesis
    by (simp add: u32_scene main_5_2_def Let_def scene_maxInstances_def scene_maxAnimations_def
        scene_pointsPerStroke_def MAX_ANIMATIONS_def POINTS_PER_STROKE_def)
qed

theorem slot_capacity_witness:
  "main_5_2 example_tex scene_globalParams 65536 example_buffers = example_buffers"
proof -
  have "64 * POINTS_PER_STROKE \<le> 65536" by (simp add: POINTS_PER_STROKE_def)
  with slot_capacity [of 65536 example_tex example_buffers] show ?thesis by blast
qed

section \<open>Properties of the stroke bank\<close>

lemma length_texels [simp]: "length (texels f ps) = 2 * length ps"
  by (induction ps) (simp_all add: texels_def)

lemma texels_Cons: "texels f (p # ps) = f (point_x p) # f (point_y p) # texels f ps"
  by (simp add: texels_def)

lemma update_two:
  assumes "Suc n < length xs"
  shows "take (Suc (Suc n)) (xs[n := a, Suc n := b]) = take n xs @ [a, b]"
proof -
  have "take (Suc (Suc n)) (xs[n := a, Suc n := b])
      = take (Suc n) (xs[n := a, Suc n := b]) @ [b]"
    using assms by (simp add: take_Suc_conv_app_nth)
  also have "take (Suc n) (xs[n := a, Suc n := b]) = take n xs @ [a]"
    using assms by (simp add: take_Suc_conv_app_nth)
  finally show ?thesis by simp
qed

lemma copyCells_eq:
  "rs + 2 * (i + length ps) \<le> length td \<Longrightarrow>
   copyCells f rs i ps td =
     take (rs + 2 * i) td @ texels f ps @ drop (rs + 2 * i + 2 * length ps) td"
proof (induction ps arbitrary: i td)
  case Nil
  then show ?case by (simp add: texels_def)
next
  case (Cons p ps)
  let ?n = "rs + 2 * i"
  let ?td = "td[?n := f (point_x p), Suc ?n := f (point_y p)]"
  have n: "Suc ?n < length td" using Cons.prems by simp
  have "copyCells f rs i (p # ps) td = copyCells f rs (Suc i) ps ?td"
    by (simp add: Let_def mult.commute)
  also have "\<dots> = take (rs + 2 * Suc i) ?td @ texels f ps @ drop (rs + 2 * Suc i + 2 * length ps) ?td"
    using Cons.prems by (intro Cons.IH) simp
  also have "take (rs + 2 * Suc i) ?td = take ?n td @ [f (point_x p), f (point_y p)]"
    using update_two [OF n] by simp
  also have "drop (rs + 2 * Suc i + 2 * length ps) ?td = drop (?n + 2 * length (p # ps)) td"
    by simp
  finally show ?case by (simp add: texels_Cons)
qed

lemma length_copyCells [simp]: "length (copyCells f rs i ps td) = length td"
  by (induction ps arbitrary: i td) (simp_all add: Let_def)

lemma ta_store_nat: "ta_store td (Num (real m)) v = td[m := v]"
  by (simp add: ta_store_def list_update_beyond not_less)

lemma ta_store_not_finite [simp]:
  "ta_store td NaN v = td" "ta_store td Infinity v = td" "ta_store td NegInfinity v = td"
  by (simp_all add: ta_store_def)

lemma copyPoints_integer: "copyPoints f (Num (real n)) i ps td = copyCells f n i ps td"
proof (induction ps arbitrary: i td)
  case Nil
  show ?case by simp
next
  case (Cons p ps)
  have a: "js_plus (Num (real n)) (Num (real (i * 2))) = Num (real (n + i * 2))"
    by simp
  have b: "js_plus (Num (real (n + i * 2))) (Num 1) = Num (real (n + i * 2 + 1))"
    by simp
  show ?case
    unfolding copyPoints.simps copyCells.simps Let_def a b ta_store_nat
    by (rule Cons.IH)
qed

lemma copyPoints_NaN: "copyPoints f NaN i ps td = td"
  by (induction ps arbitrary: i td) (simp_all add: Let_def)

lemma rowStart_integer:
  assumes "0 \<le> k"
  shows "js_times (js_times (Num (of_int k)) (Num (real n))) (Num 2) = Num (real (nat k * n * 2))"
  using assms by simp

lemma uploadStroke_integer:
  "uploadStroke f s (Num (of_int i)) pts =
     (if i < 0 \<or> int (maxStrokes s) \<le> i then
        (Some (StrokeIndexOutOfRange (Num (of_int i)) (maxStrokes s)), s)
      else if length pts \<noteq> pointsPerStroke s then
        (Some (WrongPointCount (pointsPerStroke s) (length pts)), s)
      else
        (None, s\<lparr>textureData := copyCells f (nat i * pointsPerStroke s * 2) 0 pts (textureData s),
                 strokeTexture := strokeTexture s @
                   [Float16Array (copyCells f (nat i * pointsPerStroke s * 2) 0 pts (textureData s))]\<rparr>))"
proof (cases "i < 0 \<or> int (maxStrokes s) \<le> i")
  case True
  then have "js_less (Num (of_int i)) (Num 0)
      \<or> js_greater_eq (Num (of_int i)) (Num (real (maxStrokes s)))"
    by auto
  with True show ?thesis by (simp add: uploadStroke_def)
next
  case False
  then have g: "\<not> (js_less (Num (of_int i)) (Num 0)
      \<or> js_greater_eq (Num (of_int i)) (Num (real (maxStrokes s))))"
    by auto
  have k: "0 \<le> i" using False by simp
  show ?thesis
    unfolding uploadStroke_def rowStart_integer [OF k] copyPoints_integer Let_def
    using False g by simp
qed


lemma copyCells_nth_outside:
  assumes "rs + 2 * length ps \<le> length td" and "k < length td"
    and "k < rs \<or> rs + 2 * length ps \<le> k"
  shows "copyCells f rs 0 ps td ! k = td ! k"
proof -
  have eq: "copyCells f rs 0 ps td = take rs td @ texels f ps @ drop (rs + 2 * length ps) td"
    using copyCells_eq [of rs 0 ps td f] assms(1) by simp
  show ?thesis
  proof (cases "k < rs")
    case True
    then show ?thesis using assms by (simp add: eq nth_append)
  next
    case False
    with assms have k: "rs + 2 * length ps \<le> k" by simp
    have a: "\<not> k - rs < 2 * length ps" using k by arith
    have b: "rs + 2 * length ps + (k - rs - 2 * length ps) = k" using k by arith
    have "copyCells f rs 0 ps td ! k = (texels f ps @ drop (rs + 2 * length ps) td) ! (k - rs)"
      using False assms(1) by (simp add: eq nth_append)
    also have "\<dots> = drop (rs + 2 * length ps) td ! (k - rs - 2 * length ps)"
      using a by (simp add: nth_append)
    also have "\<dots> = td ! k"
      using assms(1) b by simp
    finally show ?thesis .
  qed
qed

lemma copyCells_row:
  assumes "rs + 2 * length ps \<le> length td"
  shows "take (2 * length ps) (drop rs (copyCells f rs 0 ps td)) = texels f ps"
proof -
  have eq: "copyCells f rs 0 ps td = take rs td @ texels f ps @ drop (rs + 2 * length ps) td"
    using copyCells_eq [of rs 0 ps td f] assms by simp
  show ?thesis using assms by (simp add: eq)
qed

lemma wf_manager_numerals:
  assumes "wf_manager s"
  shows "maxStrokes s = 64" "pointsPerStroke s = 1024" "length (textureData s) = 131072"
  using assms by (simp_all add: wf_manager_def MAX_STROKES_def POINTS_PER_STROKE_def)

lemma copyCells_other_row:
  assumes len: "length td = 131072" and n: "length ps = 1024"
    and r: "r < 64" and r': "r' < 64" and ne: "r' \<noteq> r"
  shows "take 2048 (drop (r' * 1024 * 2) (copyCells f (r * 1024 * 2) 0 ps td))
       = take 2048 (drop (r' * 1024 * 2) td)"
proof (rule nth_equalityI)
  show "length (take 2048 (drop (r' * 1024 * 2) (copyCells f (r * 1024 * 2) 0 ps td)))
      = length (take 2048 (drop (r' * 1024 * 2) td))"
    by simp
next
  fix j
  assume "j < length (take 2048 (drop (r' * 1024 * 2) (copyCells f (r * 1024 * 2) 0 ps td)))"
  then have j: "j < 2048" by simp
  have k: "r' * 1024 * 2 + j < length td" using j r' len by simp
  have out: "r' * 1024 * 2 + j < r * 1024 * 2 \<or> r * 1024 * 2 + 2 * length ps \<le> r' * 1024 * 2 + j"
    using j ne n by arith
  have fit: "r * 1024 * 2 + 2 * length ps \<le> length td" using r n len by simp
  have "copyCells f (r * 1024 * 2) 0 ps td ! (r' * 1024 * 2 + j) = td ! (r' * 1024 * 2 + j)"
    by (rule copyCells_nth_outside [OF fit k out])
  then show "take 2048 (drop (r' * 1024 * 2) (copyCells f (r * 1024 * 2) 0 ps td)) ! j
      = take 2048 (drop (r' * 1024 * 2) td) ! j"
    using j k len by simp
qed

lemma uploadStroke_row:
  assumes wf: "wf_manager s" and r: "r < 64" and n: "length ps = 1024"
  shows "row (s\<lparr>textureData := copyCells f (r * 1024 * 2) 0 ps (textureData s)\<rparr>) r' =
     (if r' = r then texels f ps else if r' < 64 then row s r' else row (s\<lparr>textureData := copyCells f (r * 1024 * 2) 0 ps (textureData s)\<rparr>) r')"
proof -
  note w = wf_manager_numerals [OF wf]
  have fit: "r * 1024 * 2 + 2 * length ps \<le> length (textureData s)" using r n w by simp
  show ?thesis
    using copyCells_row [OF fit, of f] copyCells_other_row [OF w(3) n r, of r' f]
    by (simp add: row_def w n mult.commute)
qed

text \<open>
  What \<open>uploadStroke\<close> does for an integer index: the index error exactly when the
  index is outside \<open>[0, 64)\<close>, the point-count error exactly when the index is in
  range and \<open>points.length \<noteq> 1024\<close>, no change on failure, and on success row
  \<open>index\<close> replaced and every other row unchanged.
\<close>

lemma uploadStroke_integer_index:
  fixes i :: int
  assumes wf: "wf_manager s"
  shows "(fst (uploadStroke f s (Num (of_int i)) pts) = Some (StrokeIndexOutOfRange (Num (of_int i)) 64) \<longleftrightarrow> \<not> (0 \<le> i \<and> i < 64))
    \<and> (0 \<le> i \<and> i < 64 \<longrightarrow>
          (fst (uploadStroke f s (Num (of_int i)) pts) = Some (WrongPointCount 1024 (length pts)) \<longleftrightarrow> length pts \<noteq> 1024))
    \<and> (fst (uploadStroke f s (Num (of_int i)) pts) = None \<longleftrightarrow> 0 \<le> i \<and> i < 64 \<and> length pts = 1024)
    \<and> (fst (uploadStroke f s (Num (of_int i)) pts) \<noteq> None \<longrightarrow> snd (uploadStroke f s (Num (of_int i)) pts) = s)
    \<and> (fst (uploadStroke f s (Num (of_int i)) pts) = None \<longrightarrow>
          row (snd (uploadStroke f s (Num (of_int i)) pts)) (nat i) = texels f pts
          \<and> (\<forall>r<64. r \<noteq> nat i \<longrightarrow> row (snd (uploadStroke f s (Num (of_int i)) pts)) r = row s r))"
proof -
  note w = wf_manager_numerals [OF wf]
  have ok: "row (snd (uploadStroke f s (Num (of_int i)) pts)) r =
      (if r = nat i then texels f pts else row s r)"
    if "0 \<le> i" "i < 64" "length pts = 1024" "r < 64" for r
  proof -
    have ni: "nat i < 64" using that by simp
    have "snd (uploadStroke f s (Num (of_int i)) pts) =
        s\<lparr>textureData := copyCells f (nat i * 1024 * 2) 0 pts (textureData s),
          strokeTexture := strokeTexture s @ [Float16Array (copyCells f (nat i * 1024 * 2) 0 pts (textureData s))]\<rparr>"
      using that by (simp add: uploadStroke_integer w)
    moreover have "row (s\<lparr>textureData := td, strokeTexture := g\<rparr>) r = row (s\<lparr>textureData := td\<rparr>) r" for td g
      by (simp add: row_def)
    ultimately show ?thesis
      using uploadStroke_row [OF wf ni that(3), of f r] that(4) by simp
  qed
  show ?thesis
    using ok by (auto simp add: uploadStroke_integer w)
qed


lemma wf_manager_copyCells:
  "wf_manager s \<Longrightarrow> wf_manager (s\<lparr>textureData := copyCells f rs 0 ps (textureData s)\<rparr>)"
  by (simp add: wf_manager_def)

lemma integer_index_Num:
  "integer_index v \<Longrightarrow> v = Num (of_int (index_int v))"
  by (cases v) (simp_all add: integer_index_def index_int_def)

lemma uploadStrokes_loop_integer:
  assumes "integer_index (index e)"
  shows "uploadStrokes_loop f (e # rest) (s, nu, w) =
     (if index_int (index e) < 0 \<or> int (maxStrokes s) \<le> index_int (index e) then
        uploadStrokes_loop f rest (s, nu, w @ [SkipOutOfRange (index e) (maxStrokes s)])
      else if length (points e) \<noteq> pointsPerStroke s then
        uploadStrokes_loop f rest
          (s, nu, w @ [SkipPointCount (index e) (length (points e)) (pointsPerStroke s)])
      else
        uploadStrokes_loop f rest
          (s\<lparr>textureData :=
               copyCells f (nat (index_int (index e)) * pointsPerStroke s * 2) 0 (points e)
                 (textureData s)\<rparr>,
           True, w))"
proof -
  define k where "k = index_int (index e)"
  have e: "index e = Num (of_int k)"
    unfolding k_def by (rule integer_index_Num [OF assms])
  have ik: "index_int (Num (of_int k)) = k"
    by (simp add: index_int_def)
  show ?thesis
  proof (cases "k < 0 \<or> int (maxStrokes s) \<le> k")
    case True
    then have "js_less (Num (of_int k)) (Num 0)
        \<or> js_greater_eq (Num (of_int k)) (Num (real (maxStrokes s)))"
      by auto
    with True show ?thesis
      by (simp add: e ik)
  next
    case False
    then have g: "\<not> (js_less (Num (of_int k)) (Num 0)
        \<or> js_greater_eq (Num (of_int k)) (Num (real (maxStrokes s))))"
      by auto
    have k0: "0 \<le> k" using False by simp
    show ?thesis
      unfolding uploadStrokes_loop.simps e ik rowStart_integer [OF k0]
        copyPoints_integer Let_def
      using False g by simp
  qed
qed

lemma uploadStrokes_loop_spec:
  assumes "wf_manager s"
    and "list_all (\<lambda>e. integer_index (index e)) batch"
    and "uploadStrokes_loop f batch (s, nu, w) = (s', nu', w')"
  shows "wf_manager s'
    \<and> strokeTexture s' = strokeTexture s
    \<and> (nu' \<longleftrightarrow> nu \<or> (\<exists>e\<in>set batch. entry_ok e))
    \<and> w' = w @ map entry_warning (filter (\<lambda>e. \<not> entry_ok e) batch)
    \<and> (\<forall>r<64. row s' r =
          (if entries_for r batch = [] then row s r
           else texels f (points (last (entries_for r batch)))))"
  using assms
proof (induction batch arbitrary: s nu w)
  case Nil
  then show ?case by (simp add: entries_for_def)
next
  case (Cons e batch)
  note w = wf_manager_numerals [OF Cons.prems(1)]
  have ie: "integer_index (index e)" and ib: "list_all (\<lambda>e. integer_index (index e)) batch"
    using Cons.prems(2) by simp_all
  note step = uploadStrokes_loop_integer [OF ie, of f batch s nu w]
  show ?case
  proof (cases "entry_ok e")
    case False
    then have loop: "uploadStrokes_loop f batch (s, nu, w @ [entry_warning e]) = (s', nu', w')"
      using Cons.prems(3) unfolding step
      by (auto simp add: entry_ok_def entry_warning_def w split: if_splits)
    from Cons.IH [OF Cons.prems(1) ib loop] False show ?thesis
      by (simp add: entries_for_def)
  next
    case True
    let ?s1 = "s\<lparr>textureData := copyCells f (nat (index_int (index e)) * 1024 * 2) 0 (points e) (textureData s)\<rparr>"
    have ni: "nat (index_int (index e)) < 64" and n: "length (points e) = 1024"
      using True unfolding entry_ok_def by linarith+
    have loop: "uploadStrokes_loop f batch (?s1, True, w) = (s', nu', w')"
      using Cons.prems(3) True unfolding step by (simp add: entry_ok_def w)
    have wf1: "wf_manager ?s1" by (rule wf_manager_copyCells [OF Cons.prems(1)])
    have row1: "row ?s1 r = (if r = nat (index_int (index e)) then texels f (points e) else row s r)"
      if "r < 64" for r
      using uploadStroke_row [OF Cons.prems(1) ni n, of f r] that by simp
    have ef: "entries_for r (e # batch) =
        (if nat (index_int (index e)) = r then e # entries_for r batch else entries_for r batch)" for r
      using True by (simp add: entries_for_def)
    from Cons.IH [OF wf1 ib loop] True row1 show ?thesis
      by (auto simp add: ef)
  qed
qed

text \<open>
  What \<open>uploadStrokes\<close> does for a batch of integer indices: a row ends as the
  points of the last valid entry addressed to it, or unchanged; every other entry
  leaves one warning; and the texture receives one update when an entry was applied,
  none otherwise.
\<close>

lemma uploadStrokes_integer_indices:
  assumes "wf_manager s" and "list_all (\<lambda>e. integer_index (index e)) batch"
  shows "(\<forall>r<64. row (fst (uploadStrokes f s batch)) r =
            (if entries_for r batch = [] then row s r
             else texels f (points (last (entries_for r batch)))))
    \<and> snd (uploadStrokes f s batch) = map entry_warning (filter (\<lambda>e. \<not> entry_ok e) batch)
    \<and> strokeTexture (fst (uploadStrokes f s batch)) =
        strokeTexture s @
          (if \<exists>e\<in>set batch. entry_ok e
           then [Float32Array (textureData (fst (uploadStrokes f s batch)))] else [])"
proof -
  obtain s' nu' w' where loop: "uploadStrokes_loop f batch (s, False, []) = (s', nu', w')"
    by (metis prod_cases3)
  have r: "row (s'\<lparr>strokeTexture := g\<rparr>) r = row s' r" for g r
    by (simp add: row_def)
  from uploadStrokes_loop_spec [OF assms loop] show ?thesis
    by (simp add: uploadStrokes_def loop r)
qed

lemma texels_nth:
  "k < length ps \<Longrightarrow> texels f ps ! (k * 2) = f (point_x (ps ! k))
     \<and> texels f ps ! (k * 2 + 1) = f (point_y (ps ! k))"
proof (induction ps arbitrary: k)
  case Nil
  then show ?case by simp
next
  case (Cons p ps)
  then show ?case by (cases k) (simp_all add: texels_Cons)
qed

lemma getStrokeData_row:
  assumes wf: "wf_manager s" and i: "0 \<le> i" "i < 64" and r: "row s (nat i) = texels f ps"
    and n: "length ps = 1024"
  shows "getStrokeData s i = Some (map (\<lambda>p. (f (point_x p), f (point_y p))) ps)"
proof -
  note w = wf_manager_numerals [OF wf]
  have ni: "nat i < 64" using i by simp
  have cell: "textureData s ! (nat i * 1024 * 2 + j) = texels f ps ! j" if "j < 2048" for j
  proof -
    have "texels f ps ! j = take 2048 (drop (nat i * 1024 * 2) (textureData s)) ! j"
      using r by (simp add: row_def w)
    also have "\<dots> = textureData s ! (nat i * 1024 * 2 + j)"
      using that ni w by simp
    finally show ?thesis by simp
  qed
  have "map (\<lambda>k. (textureData s ! (nat i * 1024 * 2 + k * 2),
                  textureData s ! (nat i * 1024 * 2 + k * 2 + 1))) [0..<1024]
      = map (\<lambda>p. (f (point_x p), f (point_y p))) ps"
  proof (rule nth_equalityI)
    show "length (map (\<lambda>k. (textureData s ! (nat i * 1024 * 2 + k * 2),
                  textureData s ! (nat i * 1024 * 2 + k * 2 + 1))) [0..<1024])
        = length (map (\<lambda>p. (f (point_x p), f (point_y p))) ps)"
      using n by (simp del: upt_rec_numeral)
  next
    fix k
    assume "k < length (map (\<lambda>k. (textureData s ! (nat i * 1024 * 2 + k * 2),
                  textureData s ! (nat i * 1024 * 2 + k * 2 + 1))) [0..<1024])"
    then have k: "k < 1024" by (simp del: upt_rec_numeral)
    have c1: "textureData s ! (nat i * 1024 * 2 + k * 2) = f (point_x (ps ! k))"
      using cell [of "k * 2"] k texels_nth [of k ps f] n by simp
    have c2: "textureData s ! (nat i * 1024 * 2 + k * 2 + 1) = f (point_y (ps ! k))"
      using cell [of "k * 2 + 1"] k texels_nth [of k ps f] n by (simp add: add.assoc)
    show "map (\<lambda>k. (textureData s ! (nat i * 1024 * 2 + k * 2),
                  textureData s ! (nat i * 1024 * 2 + k * 2 + 1))) [0..<1024] ! k
        = map (\<lambda>p. (f (point_x p), f (point_y p))) ps ! k"
      using k n c1 c2 by (simp del: upt_rec_numeral)
  qed
  then show ?thesis
    using i by (simp add: getStrokeData_def w Let_def del: upt_rec_numeral)
qed

lemma uploadStroke_wf:
  "wf_manager s \<Longrightarrow> wf_manager (snd (uploadStroke f s (Num (of_int i)) pts))"
  by (simp add: uploadStroke_integer wf_manager_def)

lemma uploadStroke_ok_row:
  assumes "wf_manager s" "0 \<le> i" "i < 64" "length pts = 1024"
  shows "row (snd (uploadStroke f s (Num (of_int i)) pts)) (nat i) = texels f pts"
proof -
  note w = wf_manager_numerals [OF assms(1)]
  have ni: "nat i < 64" using assms by simp
  have "snd (uploadStroke f s (Num (of_int i)) pts) =
      s\<lparr>textureData := copyCells f (nat i * 1024 * 2) 0 pts (textureData s),
        strokeTexture := strokeTexture s @ [Float16Array (copyCells f (nat i * 1024 * 2) 0 pts (textureData s))]\<rparr>"
    using assms by (simp add: uploadStroke_integer w)
  moreover have "row (s\<lparr>textureData := td, strokeTexture := g\<rparr>) r = row (s\<lparr>textureData := td\<rparr>) r" for td g r
    by (simp add: row_def)
  ultimately show ?thesis
    using uploadStroke_row [OF assms(1) ni assms(4), of f "nat i"] by simp
qed

text \<open>
  C7: for a row index \<open>i\<close> in \<open>[0, 64)\<close> and 1024 points, \<open>getStrokeData(i)\<close> after
  \<open>uploadStroke(i, pts)\<close> returns, point for point, the \<open>x\<close> and \<open>y\<close> of \<open>pts\<close>
  as stored in single precision; so whatever relation \<open>R\<close> bounds the rounding of a
  store, the returned coordinates are \<open>R\<close>-close to the uploaded ones. The bank has
  no cell for \<open>t\<close>.
\<close>

theorem upload_get_roundtrip:
  assumes wf: "wf_manager s" and i: "0 \<le> i" "i < 64" and n: "length pts = 1024"
    and tol: "\<And>v. R (fround v) v"
  shows "\<exists>out. getStrokeData (snd (uploadStroke fround s (Num (of_int i)) pts)) i = Some out
    \<and> out = map (\<lambda>p. (fround (point_x p), fround (point_y p))) pts
    \<and> length out = length pts
    \<and> (\<forall>k<length pts. R (fst (out ! k)) (point_x (pts ! k)) \<and> R (snd (out ! k)) (point_y (pts ! k)))"
proof -
  have "getStrokeData (snd (uploadStroke fround s (Num (of_int i)) pts)) i
      = Some (map (\<lambda>p. (fround (point_x p), fround (point_y p))) pts)"
    by (rule getStrokeData_row [OF uploadStroke_wf [OF wf] i uploadStroke_ok_row [OF wf i n] n])
  then show ?thesis using tol by simp
qed


lemma checkCoordinates_Nil_iff:
  "checkCoordinates i ps errs = [] \<longleftrightarrow>
     errs = [] \<and> list_all (\<lambda>p. isFinite (point_x p) \<and> isFinite (point_y p)
        \<and> \<not> js_less (point_t p) (Num 0) \<and> \<not> js_less (Num 1) (point_t p)) ps"
  by (induction ps arbitrary: i errs) (auto simp add: Let_def)

lemma checkProgression_Nil_iff:
  "checkProgression i ps errs = [] \<longleftrightarrow>
     errs = [] \<and> successively (\<lambda>p q. \<not> js_less (point_t q) (point_t p)) ps"
  by (induction i ps errs rule: checkProgression.induct) auto

lemma validateStrokeData_valid_iff:
  "valid (validateStrokeData s ps) \<longleftrightarrow>
     length ps = pointsPerStroke s
     \<and> list_all (\<lambda>p. isFinite (point_x p) \<and> isFinite (point_y p)
          \<and> \<not> js_less (point_t p) (Num 0) \<and> \<not> js_less (Num 1) (point_t p)) ps
     \<and> successively (\<lambda>p q. \<not> js_less (point_t q) (point_t p)) ps"
  by (auto simp add: validateStrokeData_def Let_def checkProgression_Nil_iff checkCoordinates_Nil_iff)

lemma not_less_bounds:
  "v \<noteq> NaN \<Longrightarrow> (\<not> js_less v (Num 0) \<and> \<not> js_less (Num 1) v) = in_unit_interval v"
  by (cases v) (auto simp add: in_unit_interval_def)

lemma not_less_unit:
  "in_unit_interval a \<Longrightarrow> in_unit_interval b \<Longrightarrow> (\<not> js_less b a) = num_le a b"
  by (cases a; cases b) (auto simp add: in_unit_interval_def num_le_def)

lemma successively_cong_list_all:
  "list_all Q ps \<Longrightarrow> (\<And>a b. Q a \<Longrightarrow> Q b \<Longrightarrow> P a b = P' a b) \<Longrightarrow>
     successively P ps = successively P' ps"
  by (induction P ps rule: successively.induct) auto

lemma validateStrokeData_without_NaN:
  assumes "list_all (\<lambda>p. point_t p \<noteq> NaN) ps"
  shows "valid (validateStrokeData s ps) \<longleftrightarrow>
     length ps = pointsPerStroke s
     \<and> list_all (\<lambda>p. isFinite (point_x p) \<and> isFinite (point_y p)) ps
     \<and> list_all (\<lambda>p. in_unit_interval (point_t p)) ps
     \<and> successively (\<lambda>p q. num_le (point_t p) (point_t q)) ps"
proof -
  have a: "list_all (\<lambda>p. isFinite (point_x p) \<and> isFinite (point_y p)
          \<and> \<not> js_less (point_t p) (Num 0) \<and> \<not> js_less (Num 1) (point_t p)) ps
      \<longleftrightarrow> list_all (\<lambda>p. isFinite (point_x p) \<and> isFinite (point_y p)) ps
        \<and> list_all (\<lambda>p. in_unit_interval (point_t p)) ps"
    using assms by (induction ps) (auto simp add: not_less_bounds)
  have b: "successively (\<lambda>p q. \<not> js_less (point_t q) (point_t p)) ps
      = successively (\<lambda>p q. num_le (point_t p) (point_t q)) ps"
    if "list_all (\<lambda>p. in_unit_interval (point_t p)) ps"
    using that by (rule successively_cong_list_all) (simp add: not_less_unit)
  show ?thesis
    unfolding validateStrokeData_valid_iff a using b by auto
qed

lemma successively_replicate: "P a a \<Longrightarrow> successively P (replicate n a)"
  by (induction n rule: induct_nat_012) auto

text \<open>
  C10, at the failing input: 1024 points with finite coordinates whose \<open>t\<close> is NaN.
  No \<open>t\<close> lies in \<open>[0,1]\<close>, and the validator returns \<open>valid = true\<close>, since both
  \<open>t < 0\<close> and \<open>t > 1\<close> are false for NaN. On points whose \<open>t\<close> is not NaN the
  validator accepts exactly what C10 says (\<open>validateStrokeData_without_NaN\<close>).
\<close>

theorem validateStrokeData_accepts_NaN:
  "valid (validateStrokeData createStrokeTexture (replicate 1024 nan_point)) = True"
proof -
  have "successively (\<lambda>p q. \<not> js_less (point_t q) (point_t p)) (replicate 1024 nan_point)"
    by (rule successively_replicate) (simp add: nan_point_def)
  moreover have "list_all (\<lambda>p. isFinite (point_x p) \<and> isFinite (point_y p)
          \<and> \<not> js_less (point_t p) (Num 0) \<and> \<not> js_less (Num 1) (point_t p)) (replicate 1024 nan_point)"
    by (simp add: list_all_iff nan_point_def)
  ultimately show ?thesis
    by (simp add: validateStrokeData_valid_iff createStrokeTexture_def POINTS_PER_STROKE_def)
qed

lemma nan_point_not_in_unit_interval: "\<not> in_unit_interval (point_t nan_point)"
  by (simp add: nan_point_def in_unit_interval_def)


lemma wf_createStrokeTexture: "wf_manager createStrokeTexture"
  by (simp add: wf_manager_def createStrokeTexture_def)

lemma uploadStroke_integer_index_example:
  "fst (uploadStroke (\<lambda>v. v) createStrokeTexture (Num 3) (replicate 1024 example_point)) = None
   \<and> row (snd (uploadStroke (\<lambda>v. v) createStrokeTexture (Num 3) (replicate 1024 example_point))) 3
        = texels (\<lambda>v. v) (replicate 1024 example_point)
   \<and> row (snd (uploadStroke (\<lambda>v. v) createStrokeTexture (Num 3) (replicate 1024 example_point))) 5
        = row createStrokeTexture 5
   \<and> fst (uploadStroke (\<lambda>v. v) createStrokeTexture (Num 64) (replicate 1024 example_point))
        = Some (StrokeIndexOutOfRange (Num 64) 64)
   \<and> snd (uploadStroke (\<lambda>v. v) createStrokeTexture (Num 64) (replicate 1024 example_point))
        = createStrokeTexture
   \<and> fst (uploadStroke (\<lambda>v. v) createStrokeTexture (Num 3) [example_point])
        = Some (WrongPointCount 1024 1)
   \<and> snd (uploadStroke (\<lambda>v. v) createStrokeTexture (Num 3) [example_point]) = createStrokeTexture"
proof -
  note a = uploadStroke_integer_index [OF wf_createStrokeTexture, of "\<lambda>v. v" 3 "replicate 1024 example_point", simplified]
  note b = uploadStroke_integer_index [OF wf_createStrokeTexture, of "\<lambda>v. v" 64 "replicate 1024 example_point", simplified]
  note c = uploadStroke_integer_index [OF wf_createStrokeTexture, of "\<lambda>v. v" 3 "[example_point]", simplified]
  have a5: "row (snd (uploadStroke (\<lambda>v. v) createStrokeTexture (Num 3) (replicate 1024 example_point))) 5
        = row createStrokeTexture 5"
    using a by simp
  show ?thesis
    using a a5 b c by simp
qed

text \<open>
  C2, at the failing input: the index NaN is outside \<open>[0, 64)\<close>, and both
  \<open>NaN < 0\<close> and \<open>NaN >= 64\<close> are false, so \<open>uploadStroke(NaN, points)\<close> with 1024
  points throws nothing: every store of the copy loop has the key NaN and is dropped,
  the bank is unchanged, and the texture is updated all the same.
\<close>

theorem uploadStroke_accepts_NaN:
  "uploadStroke fround createStrokeTexture NaN (replicate 1024 example_point) =
     (None, createStrokeTexture
        \<lparr>strokeTexture := strokeTexture createStrokeTexture
           @ [Float16Array (textureData createStrokeTexture)]\<rparr>)"
  by (simp add: uploadStroke_def copyPoints_NaN createStrokeTexture_def
      MAX_STROKES_def POINTS_PER_STROKE_def Let_def)

text \<open>
  A fractional index inside \<open>[0, 64)\<close> passes the guard as well: with index \<open>1/2\<close> the
  row starts at cell 1024, and the stroke lands on the second half of row 0 and the
  first half of row 1.
\<close>

lemma uploadStroke_fractional_index:
  "fst (uploadStroke (\<lambda>v. v) createStrokeTexture (Num (1/2)) (replicate 1024 example_point)) = None
   \<and> row (snd (uploadStroke (\<lambda>v. v) createStrokeTexture (Num (1/2)) (replicate 1024 example_point))) 0 ! 1024
        = Num 1
   \<and> row createStrokeTexture 0 ! 1024 = Num 0
   \<and> row (snd (uploadStroke (\<lambda>v. v) createStrokeTexture (Num (1/2)) (replicate 1024 example_point))) 1 ! 0
        = Num 1
   \<and> row createStrokeTexture 1 ! 0 = Num 0"
proof -
  let ?ps = "replicate 1024 example_point"
  let ?td = "textureData createStrokeTexture"
  have len: "length ?td = 131072"
    by (simp add: createStrokeTexture_def MAX_STROKES_def POINTS_PER_STROKE_def)
  have start: "js_times (js_times (Num (1/2)) (Num (real (pointsPerStroke createStrokeTexture)))) (Num 2)
      = Num (real 1024)"
    by (simp add: createStrokeTexture_def POINTS_PER_STROKE_def)
  have up: "uploadStroke (\<lambda>v. v) createStrokeTexture (Num (1/2)) ?ps =
      (None, createStrokeTexture
         \<lparr>textureData := copyCells (\<lambda>v. v) 1024 0 ?ps ?td,
          strokeTexture := strokeTexture createStrokeTexture
            @ [Float16Array (copyCells (\<lambda>v. v) 1024 0 ?ps ?td)]\<rparr>)"
    unfolding uploadStroke_def start copyPoints_integer Let_def
    by (simp add: createStrokeTexture_def MAX_STROKES_def POINTS_PER_STROKE_def)
  have cells: "copyCells (\<lambda>v. v) 1024 0 ?ps ?td
      = take 1024 ?td @ texels (\<lambda>v. v) ?ps @ drop 3072 ?td"
    using copyCells_eq [of 1024 0 ?ps ?td "\<lambda>v. v"] len by simp
  have t0: "texels (\<lambda>v. v) ?ps ! 0 = Num 1"
    using texels_nth [of 0 ?ps "\<lambda>v. v"] by (simp add: example_point_def)
  have t1: "texels (\<lambda>v. v) ?ps ! 1024 = Num 1"
    using texels_nth [of 512 ?ps "\<lambda>v. v"] by (simp add: example_point_def)
  have c0: "copyCells (\<lambda>v. v) 1024 0 ?ps ?td ! 1024 = Num 1"
    using len t0 by (simp add: cells nth_append)
  have c1: "copyCells (\<lambda>v. v) 1024 0 ?ps ?td ! 2048 = Num 1"
    using len t1 by (simp add: cells nth_append)
  have old: "?td ! 1024 = Num 0" "?td ! 2048 = Num 0"
    by (simp_all add: createStrokeTexture_def MAX_STROKES_def POINTS_PER_STROKE_def)
  have pps: "pointsPerStroke createStrokeTexture = 1024"
    by (simp add: createStrokeTexture_def POINTS_PER_STROKE_def)
  show ?thesis
    using c0 c1 old len by (simp add: up row_def pps)
qed

theorem upload_get_roundtrip_witness:
  "getStrokeData (snd (uploadStroke (\<lambda>v. v) createStrokeTexture (Num 3) (replicate 1024 example_point))) 3
     = Some (replicate 1024 (Num 1, Num 2))"
  using upload_get_roundtrip [OF wf_createStrokeTexture, of 3 "replicate 1024 example_point" "(=)" "\<lambda>v. v"]
  by (simp add: example_point_def)

lemma example_batch_entries:
  "entries_for 3 example_batch = [\<lparr>index = Num 3, points = replicate 1024 example_point\<rparr>]"
  "entries_for 5 example_batch = []"
  "filter (\<lambda>e. \<not> entry_ok e) example_batch =
     [\<lparr>index = Num 64, points = []\<rparr>, \<lparr>index = Num 5, points = [example_point]\<rparr>]"
  "\<exists>e\<in>set example_batch. entry_ok e"
  "list_all (\<lambda>e. integer_index (index e)) example_batch"
  by (simp_all add: entries_for_def example_batch_def entry_ok_def index_int_def integer_index_def)

lemma uploadStrokes_integer_indices_example:
  "row (fst (uploadStrokes (\<lambda>v. v) createStrokeTexture example_batch)) 3
       = texels (\<lambda>v. v) (replicate 1024 example_point)
   \<and> row (fst (uploadStrokes (\<lambda>v. v) createStrokeTexture example_batch)) 5
       = row createStrokeTexture 5
   \<and> snd (uploadStrokes (\<lambda>v. v) createStrokeTexture example_batch)
       = [SkipOutOfRange (Num 64) 64, SkipPointCount (Num 5) 1 1024]
   \<and> strokeTexture (fst (uploadStrokes (\<lambda>v. v) createStrokeTexture example_batch))
       = strokeTexture createStrokeTexture @
           [Float32Array (textureData (fst (uploadStrokes (\<lambda>v. v) createStrokeTexture example_batch)))]"
proof -
  note a = uploadStrokes_integer_indices [OF wf_createStrokeTexture example_batch_entries(5), of "\<lambda>v. v"]
  from a have rows: "\<forall>r<64. row (fst (uploadStrokes (\<lambda>v. v) createStrokeTexture example_batch)) r =
            (if entries_for r example_batch = [] then row createStrokeTexture r
             else texels (\<lambda>v. v) (points (last (entries_for r example_batch))))"
    by blast
  have r3: "row (fst (uploadStrokes (\<lambda>v. v) createStrokeTexture example_batch)) 3
       = texels (\<lambda>v. v) (replicate 1024 example_point)"
    using rows [rule_format, of 3] by (simp add: example_batch_entries)
  have r5: "row (fst (uploadStrokes (\<lambda>v. v) createStrokeTexture example_batch)) 5
       = row createStrokeTexture 5"
    using rows [rule_format, of 5] by (simp add: example_batch_entries)
  have w: "snd (uploadStrokes (\<lambda>v. v) createStrokeTexture example_batch)
       = [SkipOutOfRange (Num 64) 64, SkipPointCount (Num 5) 1 1024]"
    using a by (simp add: example_batch_entries entry_warning_def index_int_def)
  have g: "strokeTexture (fst (uploadStrokes (\<lambda>v. v) createStrokeTexture example_batch))
       = strokeTexture createStrokeTexture @
           [Float32Array (textureData (fst (uploadStrokes (\<lambda>v. v) createStrokeTexture example_batch)))]"
    using a example_batch_entries(4) by simp
  show ?thesis using r3 r5 w g by simp
qed

text \<open>
  C8, at the failing input: a batch of one entry with index NaN and 1024 points. The
  index is not in \<open>[0, 64)\<close>, yet the entry passes both guards: no warning is written,
  every store of the copy loop is dropped, \<open>needsUpdate\<close> is set and the texture is
  updated with the unchanged array.
\<close>

theorem uploadStrokes_accepts_NaN:
  "uploadStrokes fround createStrokeTexture nan_batch =
     (createStrokeTexture
        \<lparr>strokeTexture := strokeTexture createStrokeTexture
           @ [Float32Array (textureData createStrokeTexture)]\<rparr>,
      [])"
  by (simp add: uploadStrokes_def nan_batch_def copyPoints_NaN createStrokeTexture_def
      MAX_STROKES_def POINTS_PER_STROKE_def)

section \<open>Properties of the stroke normalizer\<close>

lemma distance_self [simp]: "distance p p = 0"
  by (simp add: distance_def)

lemma distance_pos: "p \<noteq> q \<Longrightarrow> 0 < distance p q"
proof -
  assume "p \<noteq> q"
  then have "fst q - fst p \<noteq> 0 \<or> snd q - snd p \<noteq> 0"
    by (auto simp add: prod_eq_iff)
  then have "0 < (fst q - fst p)\<^sup>2 + (snd q - snd p)\<^sup>2"
    by (auto simp add: sum_power2_gt_zero_iff)
  then show ?thesis by (simp add: distance_def)
qed

lemma length_cumulativeLengths:
  "ps \<noteq> [] \<Longrightarrow> length (cumulativeLengths acc ps) = length ps"
  by (induction acc ps rule: cumulativeLengths.induct) auto

lemma cumulativeLengths_step:
  "Suc i < length ps \<Longrightarrow>
     cumulativeLengths acc ps ! Suc i - cumulativeLengths acc ps ! i = distance (ps ! i) (ps ! Suc i)"
proof (induction acc ps arbitrary: i rule: cumulativeLengths.induct)
  case (1 acc p q rest)
  show ?case
  proof (cases i)
    case 0
    then show ?thesis by (cases rest) simp_all
  next
    case (Suc k)
    with 1 show ?thesis by simp
  qed
qed simp_all

lemma locateSegment_le: "locateSegment ls u \<le> length ls - 1"
  by (induction ls u rule: locateSegment.induct) auto

lemma nondegenerate_two_points:
  assumes "0 \<le> eps" and "\<not> degenerate eps ps"
  shows "2 \<le> length (remdups_adj ps)"
proof (rule ccontr)
  assume "\<not> 2 \<le> length (remdups_adj ps)"
  then have small: "length (remdups_adj ps) \<le> 1" by simp
  from assms(2) obtain p q where pq: "p \<in> set ps" "q \<in> set ps" "\<not> distance p q \<le> eps"
    by (auto simp add: degenerate_def list_all_iff)
  with assms(1) have ne: "p \<noteq> q" by auto
  from small have "\<exists>x. set (remdups_adj ps) \<subseteq> {x}"
    by (cases "remdups_adj ps") auto
  then obtain x where "set ps \<subseteq> {x}" by auto
  with pq ne show False by auto
qed

lemma sampleAt_finite:
  assumes "distinct_adj ps" and "2 \<le> length ps"
  shows "\<exists>a b. sampleAt ps (cumulativeLengths 0 ps) j
     = \<lparr>point_x = Num a, point_y = Num b, point_t = Num (real j / 1023)\<rparr>"
proof -
  let ?L = "cumulativeLengths 0 ps"
  let ?u = "real j / 1023 * last ?L"
  let ?i = "locateSegment (tl ?L) ?u"
  have ne: "ps \<noteq> []" using assms(2) by auto
  have "?i \<le> length (tl ?L) - 1" by (rule locateSegment_le)
  also have "\<dots> = length ps - 2" by (simp add: length_cumulativeLengths [OF ne])
  finally have i: "Suc ?i < length ps" using assms(2) by simp
  have "?L ! Suc ?i - ?L ! ?i = distance (ps ! ?i) (ps ! Suc ?i)"
    by (rule cumulativeLengths_step [OF i])
  moreover have "0 < distance (ps ! ?i) (ps ! Suc ?i)"
    by (rule distance_pos [OF distinct_adj_nth [OF assms(1) i]])
  ultimately have d: "?L ! (?i + 1) - ?L ! ?i \<noteq> 0" by simp
  have t: "num_div (real j) (real (POINTS_PER_STROKE - 1)) = Num (real j / 1023)"
    by (simp add: num_div_def POINTS_PER_STROKE_def)
  have s: "num_div (?u - ?L ! ?i) (?L ! (?i + 1) - ?L ! ?i)
      = Num ((?u - ?L ! ?i) / (?L ! (?i + 1) - ?L ! ?i))"
    using d unfolding num_div_def by (rule if_P)
  show ?thesis
    unfolding sampleAt_def t number.case Let_def s by blast
qed


text \<open>
  C6: for every stroke that is not degenerate (some two of its points are more than
  \<open>eps\<close> apart, so it has two distinct points), \<open>normalizeStroke\<close> returns exactly
  \<open>N = 1024\<close> points; every coordinate is finite, no division by zero occurring because
  each segment of the cleaned polyline has positive length; \<open>t\<close> is \<open>j/1023\<close> at
  sample \<open>j\<close>, so it runs from 0 to 1 and increases strictly; and the result passes
  \<open>validateStrokeData\<close>.
\<close>

theorem normalizeStroke_spec:
  assumes "0 \<le> eps" and "\<not> degenerate eps ps"
  shows "\<exists>out. normalizeStroke eps ps = Inr out
    \<and> length out = 1024
    \<and> list_all (\<lambda>p. isFinite (point_x p) \<and> isFinite (point_y p)) out
    \<and> (\<forall>j<1024. point_t (out ! j) = Num (real j / 1023))
    \<and> point_t (out ! 0) = Num 0
    \<and> point_t (out ! 1023) = Num 1
    \<and> (\<forall>j k. j < k \<and> k < 1024 \<longrightarrow> js_less (point_t (out ! j)) (point_t (out ! k)))
    \<and> valid (validateStrokeData createStrokeTexture out)"
proof -
  define cleaned where "cleaned = remdups_adj ps"
  define out where "out = map (sampleAt cleaned (cumulativeLengths 0 cleaned)) [0..<POINTS_PER_STROKE]"
  have two: "2 \<le> length cleaned"
    unfolding cleaned_def by (rule nondegenerate_two_points [OF assms])
  have adj: "distinct_adj cleaned"
    unfolding cleaned_def by simp
  have res: "normalizeStroke eps ps = Inr out"
    using assms(2) by (simp add: normalizeStroke_def Let_def out_def cleaned_def)
  have len: "length out = 1024"
    by (simp add: out_def POINTS_PER_STROKE_def del: upt_rec_numeral)
  have pt: "\<exists>a b. out ! j = \<lparr>point_x = Num a, point_y = Num b, point_t = Num (real j / 1023)\<rparr>"
    if "j < 1024" for j
  proof -
    have "out ! j = sampleAt cleaned (cumulativeLengths 0 cleaned) j"
      using that by (simp add: out_def POINTS_PER_STROKE_def del: upt_rec_numeral)
    then show ?thesis using sampleAt_finite [OF adj two, of j] by simp
  qed
  have t: "point_t (out ! j) = Num (real j / 1023)" if "j < 1024" for j
    using pt [OF that] by auto
  have fin: "isFinite (point_x (out ! j)) \<and> isFinite (point_y (out ! j))" if "j < 1024" for j
    using pt [OF that] by auto
  have fin_all: "list_all (\<lambda>p. isFinite (point_x p) \<and> isFinite (point_y p)) out"
    using fin len by (simp add: list_all_length)
  have incr: "js_less (point_t (out ! j)) (point_t (out ! k))" if "j < k" "k < 1024" for j k
    using that by (simp add: t)
  have bounds: "list_all (\<lambda>p. isFinite (point_x p) \<and> isFinite (point_y p)
          \<and> \<not> js_less (point_t p) (Num 0) \<and> \<not> js_less (Num 1) (point_t p)) out"
    using fin len by (simp add: list_all_length t)
  have succ: "successively (\<lambda>p q. \<not> js_less (point_t q) (point_t p)) out"
    using len by (simp add: successively_conv_nth t)
  have v: "valid (validateStrokeData createStrokeTexture out)"
    using bounds succ len
    by (simp add: validateStrokeData_valid_iff createStrokeTexture_def POINTS_PER_STROKE_def)
  show ?thesis
    using res len fin_all t incr v by simp
qed

theorem normalizeStroke_spec_witness:
  "\<exists>out. normalizeStroke 0 [(0, 0), (1, 0)] = Inr out
     \<and> length out = 1024
     \<and> point_t (out ! 1023) = Num 1
     \<and> valid (validateStrokeData createStrokeTexture out)"
proof -
  have "\<not> degenerate 0 [(0, 0), (1, 0)]"
    by (simp add: degenerate_def distance_def)
  from normalizeStroke_spec [OF order_refl this] show ?thesis by blast
qed

end
